theory Spec2Isabelle
  imports Complex_Main
begin

section \<open>Python values used by the weather application\<close>

text \<open>
  Numbers that arrive from the weather provider (temperatures, wind speeds, rain amounts,
  humidity) are Python numbers; they are modelled as \<open>real\<close>, so the branch conditions of
  the source read as they are written. Not-a-number values are outside the model.

  A calendar date is modelled by its proleptic ordinal (Python's \<open>date.toordinal()\<close>), a
  \<open>datetime\<close> by that ordinal and the second of the day. The order of dates is the order
  of their ordinals.
\<close>

type_synonym date = int

record datetime =
  dt_date :: date
  dt_second :: nat

text \<open>
  The exceptions the aggregate operations of Python raise: \<open>max\<close> and \<open>min\<close> of an empty
  sequence raise ValueError, \<open>/\<close> by zero raises ZeroDivisionError, an index out of range
  raises IndexError.
\<close>

datatype py_error = ValueError | ZeroDivisionError | IndexError

fun py_max :: "real list \<Rightarrow> py_error + real" where
  "py_max [] = Inl ValueError"
| "py_max (x # xs) = Inr (fold max xs x)"

fun py_min :: "real list \<Rightarrow> py_error + real" where
  "py_min [] = Inl ValueError"
| "py_min (x # xs) = Inr (fold min xs x)"

definition py_truediv :: "real \<Rightarrow> real \<Rightarrow> py_error + real" where
  "py_truediv a b = (if b = 0 then Inl ZeroDivisionError else Inr (a / b))"

definition py_getitem :: "'a list \<Rightarrow> int \<Rightarrow> py_error + 'a" where
  "py_getitem xs i =
     (if 0 \<le> i \<and> i < int (length xs) then Inr (xs ! nat i)
      else if i < 0 \<and> - int (length xs) \<le> i then Inr (xs ! nat (int (length xs) + i))
      else Inl IndexError)"

text \<open>\<open>xs[:k]\<close>: a negative \<open>k\<close> counts from the end of the list.\<close>

definition py_slice_to :: "int \<Rightarrow> 'a list \<Rightarrow> 'a list" where
  "py_slice_to k xs =
     (if 0 \<le> k then take (nat k) xs else take (nat (int (length xs) + k)) xs)"

text \<open>Truth value of an optional list: \<open>None\<close> and the empty list are false.\<close>

fun truthy :: "'a list option \<Rightarrow> bool" where
  "truthy None = False"
| "truthy (Some xs) = (xs \<noteq> [])"

text \<open>
  A formatted string (an f-string of the source) is kept as the sequence of its pieces:
  literal text, a number under the format \<open>.1f\<close>, a number under the default format, and a
  \<open>datetime\<close> under \<open>strftime("%H:%M")\<close>. Literal text is a byte string: a character
  outside ASCII is written as its UTF-8 bytes.
\<close>

datatype piece = Lit string | Fmt1 real | Fmt real | StrfHM datetime

type_synonym fstring = "piece list"

definition lit :: "string \<Rightarrow> fstring" where
  "lit s = [Lit s]"

text \<open>\<open>str.lower()\<close> on the ASCII letters, and the substring test \<open>sub in s\<close>.\<close>

definition ascii_upper :: string where
  "ascii_upper = ''ABCDEFGHIJKLMNOPQRSTUVWXYZ''"

definition ascii_lower :: string where
  "ascii_lower = ''abcdefghijklmnopqrstuvwxyz''"

definition char_lower :: "char \<Rightarrow> char" where
  "char_lower c = (case map_of (zip ascii_upper ascii_lower) c of None \<Rightarrow> c | Some d \<Rightarrow> d)"

definition lower :: "string \<Rightarrow> string" where
  "lower s = map char_lower s"

fun startswith :: "string \<Rightarrow> string \<Rightarrow> bool" where
  "startswith s [] = True"
| "startswith [] (p # ps) = False"
| "startswith (c # cs) (p # ps) = (c = p \<and> startswith cs ps)"

fun py_in :: "string \<Rightarrow> string \<Rightarrow> bool" where
  "py_in sub [] = (sub = [])"
| "py_in sub (c # cs) = (startswith (c # cs) sub \<or> py_in sub cs)"

section \<open>Data model\<close>

text \<open>
  The dictionary of current conditions, as \<open>_parse_current_weather\<close> builds it. The keys
  the recommendation engine reads with \<open>[...]\<close> are fields; the keys it reads with
  \<open>.get\<close> are optional fields.
\<close>

record weather_data =
  temperature :: real
  wind_speed :: real
  humidity :: real
  rain_1h :: "real option"
  rain_3h :: "real option"
  main :: "string option"
  sunrise :: "datetime option"
  sunset :: "datetime option"

text \<open>One reading of a day, as \<open>_parse_forecast\<close> stores it in \<open>daily_data\<close>.\<close>

record reading =
  rd_datetime :: datetime
  rd_temperature :: real
  rd_feels_like :: real
  rd_humidity :: real
  rd_pressure :: real
  rd_wind_speed :: real
  rd_description :: string
  rd_main :: string
  rd_icon :: string
  rd_clouds :: real
  rd_rain :: real
  rd_snow :: real

text \<open>One day of the forecast, as \<open>_parse_forecast\<close> returns it.\<close>

record forecast_day =
  date :: date
  temp_min :: real
  temp_max :: real
  temp_avg :: real
  humidity_avg :: real
  wind_speed_max :: real
  total_rain :: real
  total_snow :: real
  description :: string
  icon :: string
  details :: "reading list"

record alert =
  alert_type :: string
  title :: string
  message :: fstring
  severity :: string

record recommendation_bundle =
  alerts :: "alert list"
  recommendations :: "fstring list"

record agriculture_bundle = recommendation_bundle +
  tasks :: "string list"
  suitable_activities :: "string list"
  crop_advice :: "string list"

record travel_bundle = recommendation_bundle +
  packing_list :: "string list"
  travel_outlook :: string
  best_times :: "fstring list"

section \<open>Configuration\<close>

record agriculture_thresholds =
  wind_speed_spray :: real
  rain_threshold :: real
  frost_temp :: real
  heat_stress :: real
  high_humidity :: real

record travel_thresholds =
  cold_weather :: real
  hot_weather :: real
  rain_warning :: real
  wind_warning :: real

definition AGRICULTURE_THRESHOLDS :: agriculture_thresholds where
  "AGRICULTURE_THRESHOLDS =
     \<lparr>wind_speed_spray = 20, rain_threshold = 10, frost_temp = 2, heat_stress = 35,
      high_humidity = 80\<rparr>"

definition TRAVEL_THRESHOLDS :: travel_thresholds where
  "TRAVEL_THRESHOLDS =
     \<lparr>cold_weather = 10, hot_weather = 30, rain_warning = 5, wind_warning = 40\<rparr>"

record engine =
  ag_thresholds :: agriculture_thresholds
  travel_thresholds :: travel_thresholds

definition RecommendationEngine :: engine where
  "RecommendationEngine =
     \<lparr>ag_thresholds = AGRICULTURE_THRESHOLDS, travel_thresholds = TRAVEL_THRESHOLDS\<rparr>"

section \<open>Literal texts of the recommendation engine\<close>

text \<open>The symbols outside ASCII that the source writes into its texts, as UTF-8 bytes.\<close>

definition warning_sign :: string where
  "warning_sign = [CHR 0xE2, CHR 0x9A, CHR 0xA0, CHR 0xEF, CHR 0xB8, CHR 0x8F]"

definition check_mark :: string where
  "check_mark = [CHR 0xE2, CHR 0x9C, CHR 0x93]"

definition snowflake :: string where
  "snowflake = [CHR 0xE2, CHR 0x9D, CHR 0x84, CHR 0xEF, CHR 0xB8, CHR 0x8F]"

definition degree_sign :: string where
  "degree_sign = [CHR 0xC2, CHR 0xB0]"

definition thermometer :: string where
  "thermometer = [CHR 0xF0, CHR 0x9F, CHR 0x8C, CHR 0xA1, CHR 0xEF, CHR 0xB8, CHR 0x8F]"

definition droplet :: string where
  "droplet = [CHR 0xF0, CHR 0x9F, CHR 0x92, CHR 0xA7]"

definition umbrella :: string where
  "umbrella = [CHR 0xE2, CHR 0x98, CHR 0x94]"

definition dash_symbol :: string where
  "dash_symbol = [CHR 0xF0, CHR 0x9F, CHR 0x92, CHR 0xA8]"

definition thunder_cloud :: string where
  "thunder_cloud = [CHR 0xE2, CHR 0x9B, CHR 0x88, CHR 0xEF, CHR 0xB8, CHR 0x8F]"

definition fog_symbol :: string where
  "fog_symbol = [CHR 0xF0, CHR 0x9F, CHR 0x8C, CHR 0xAB, CHR 0xEF, CHR 0xB8, CHR 0x8F]"

text \<open>The alerts of \<open>get_agriculture_recommendations\<close>.\<close>

definition high_wind_alert :: "real \<Rightarrow> alert" where
  "high_wind_alert ws =
     \<lparr>alert_type = ''warning'',
      title = warning_sign @ '' High Wind Alert'',
      message = [Lit ''Wind speed is '', Fmt1 ws,
                 Lit '' km/h. Avoid pesticide/fertilizer spraying.''],
      severity = ''high''\<rparr>"

definition frost_alert :: "real \<Rightarrow> alert" where
  "frost_alert temp =
     \<lparr>alert_type = ''danger'',
      title = snowflake @ '' Frost Warning'',
      message = [Lit ''Temperature is '', Fmt1 temp,
                 Lit (degree_sign @ ''C. Protect sensitive crops from frost damage.'')],
      severity = ''critical''\<rparr>"

definition heat_stress_alert :: "real \<Rightarrow> alert" where
  "heat_stress_alert temp =
     \<lparr>alert_type = ''warning'',
      title = thermometer @ '' Heat Stress Alert'',
      message = [Lit ''High temperature '', Fmt1 temp,
                 Lit (degree_sign @ ''C may stress crops. Ensure adequate irrigation.'')],
      severity = ''high''\<rparr>"

definition high_humidity_alert :: "real \<Rightarrow> alert" where
  "high_humidity_alert h =
     \<lparr>alert_type = ''info'',
      title = droplet @ '' High Humidity Alert'',
      message = [Lit ''Humidity at '', Fmt h,
                 Lit ''%. Increased risk of fungal diseases.''],
      severity = ''medium''\<rparr>"

text \<open>The tasks and advisories of \<open>get_agriculture_recommendations\<close>.\<close>

definition postpone_spraying_task :: string where
  "postpone_spraying_task = ''Postpone spraying operations until wind subsides''"

definition good_spraying_task :: string where
  "good_spraying_task = check_mark @ '' Good conditions for spraying operations''"

definition frost_protection_task :: string where
  "frost_protection_task = ''Cover sensitive crops or use frost protection methods''"

definition increase_irrigation_task :: string where
  "increase_irrigation_task = ''Increase irrigation frequency''"

definition skip_irrigation_task :: string where
  "skip_irrigation_task = ''Skip irrigation today - sufficient rainfall''"

definition regular_irrigation_task :: string where
  "regular_irrigation_task = ''Regular irrigation recommended''"

definition fungicide_task :: string where
  "fungicide_task = ''Apply preventive fungicide if needed''"

definition heavy_rain_advisory :: "real \<Rightarrow> fstring" where
  "heavy_rain_advisory rain =
     [Lit ''Heavy rainfall detected ('', Fmt1 rain, Lit ''mm). Delay irrigation.'']"

definition light_rain_advisory :: "real \<Rightarrow> fstring" where
  "light_rain_advisory rain =
     [Lit ''Light rainfall ('', Fmt1 rain, Lit ''mm) expected. Monitor soil moisture.'']"

definition upcoming_rain_advisory :: "real \<Rightarrow> fstring" where
  "upcoming_rain_advisory upcoming_rain =
     [Lit ''Rain expected in next 3 days ('', Fmt1 upcoming_rain,
      Lit ''mm). Plan irrigation accordingly.'']"

definition fungal_advisory :: fstring where
  "fungal_advisory = lit ''Monitor crops for signs of fungal infection''"

text \<open>The alerts, packing lists and advisories of \<open>get_travel_recommendations\<close>.\<close>

definition rain_expected_alert :: alert where
  "rain_expected_alert =
     \<lparr>alert_type = ''warning'',
      title = umbrella @ '' Rain Expected'',
      message = lit ''Pack rain gear and plan indoor activities.'',
      severity = ''medium''\<rparr>"

definition strong_winds_alert :: "real \<Rightarrow> alert" where
  "strong_winds_alert ws =
     \<lparr>alert_type = ''warning'',
      title = dash_symbol @ '' Strong Winds'',
      message = [Lit ''Wind speed '', Fmt1 ws, Lit '' km/h. Be cautious outdoors.''],
      severity = ''high''\<rparr>"

definition storm_alert :: alert where
  "storm_alert =
     \<lparr>alert_type = ''danger'',
      title = thunder_cloud @ '' Storm Warning'',
      message = lit ''Severe weather expected. Stay indoors if possible.'',
      severity = ''critical''\<rparr>"

definition poor_visibility_alert :: alert where
  "poor_visibility_alert =
     \<lparr>alert_type = ''info'',
      title = fog_symbol @ '' Poor Visibility'',
      message = lit ''Fog/mist conditions. Drive carefully.'',
      severity = ''medium''\<rparr>"

definition cold_packing :: "string list" where
  "cold_packing = [''Warm jacket'', ''Gloves'', ''Scarf'', ''Thermal wear'']"

definition hot_packing :: "string list" where
  "hot_packing = [''Sunscreen'', ''Hat'', ''Sunglasses'', ''Light clothing'', ''Water bottle'']"

definition mild_packing :: "string list" where
  "mild_packing = [''Light jacket'', ''Comfortable clothing'']"

definition rain_packing :: "string list" where
  "rain_packing = [''Umbrella'', ''Raincoat'', ''Waterproof bag'']"

definition cold_advisory :: "real \<Rightarrow> fstring" where
  "cold_advisory temp =
     [Lit ''Cold weather ('', Fmt1 temp, Lit (degree_sign @ ''C). Pack warm clothing.'')]"

definition hot_advisory :: "real \<Rightarrow> fstring" where
  "hot_advisory temp =
     [Lit ''Hot weather ('', Fmt1 temp,
      Lit (degree_sign @ ''C). Stay hydrated and use sun protection.'')]"

definition indoor_advisory :: fstring where
  "indoor_advisory = lit ''Consider indoor attractions or activities''"

definition exposed_areas_advisory :: fstring where
  "exposed_areas_advisory = lit ''Avoid outdoor activities in exposed areas''"

definition sightseeing_advisory :: fstring where
  "sightseeing_advisory = lit ''Perfect weather for sightseeing and outdoor activities!''"

definition postpone_advisory :: fstring where
  "postpone_advisory = lit ''Postpone outdoor plans. Seek shelter.''"

definition driving_advisory :: fstring where
  "driving_advisory = lit ''Exercise caution while driving. Allow extra travel time.''"

section \<open>The recommendation engine\<close>

text \<open>\<open>d.get(key, default)\<close> on an optional field.\<close>

fun dict_get :: "'a option \<Rightarrow> 'a \<Rightarrow> 'a" where
  "dict_get None d = d"
| "dict_get (Some v) d = v"

subsection \<open>Seasonal advice\<close>

text \<open>\<open>_get_season\<close> reads the month of the clock; the month is a parameter here.\<close>

definition get_season :: "int \<Rightarrow> string" where
  "get_season month =
     (if month \<in> set [12, 1, 2] then ''winter''
      else if month \<in> set [3, 4, 5] then ''spring''
      else if month \<in> set [6, 7, 8] then ''summer''
      else ''autumn'')"

definition crop_calendar :: "(string \<times> string list) list" where
  "crop_calendar =
     [(''spring'',
        [''Good time for planting summer crops like corn, cotton, and vegetables'',
         ''Prepare soil with organic matter'',
         ''Monitor for late frost warnings'']),
      (''summer'',
        [''Focus on irrigation management'',
         ''Monitor for heat stress in crops'',
         ''Good time for harvesting wheat and early crops'']),
      (''autumn'',
        [''Plant winter crops like wheat, barley'',
         ''Harvest summer crops'',
         ''Prepare fields for winter'']),
      (''winter'',
        [''Protect crops from frost'',
         ''Plan for spring planting'',
         ''Maintain irrigation systems''])]"

definition get_crop_advice :: "string \<Rightarrow> weather_data \<Rightarrow> string list" where
  "get_crop_advice season weather = dict_get (map_of crop_calendar season) []"

subsection \<open>Suitable farm activities\<close>

definition full_activities :: "string list" where
  "full_activities =
     [''Pesticide/fertilizer application'', ''Harvesting'', ''Field preparation'',
      ''Planting'', ''Equipment maintenance'']"

definition reduced_activities :: "string list" where
  "reduced_activities =
     [''Harvesting (if crops are ready)'', ''Equipment maintenance'', ''Storage management'']"

definition indoor_activities :: "string list" where
  "indoor_activities =
     [''Indoor activities only'', ''Planning and paperwork'',
      ''Equipment cleaning and maintenance'']"

definition get_suitable_farm_activities :: "weather_data \<Rightarrow> string list" where
  "get_suitable_farm_activities weather =
     (let activities = [];
          temp = temperature weather;
          wind = wind_speed weather;
          rain = dict_get (rain_1h weather) 0
      in if rain < 1 \<and> wind < 20 \<and> 10 \<le> temp \<and> temp \<le> 30
           then activities @ full_activities
         else if rain < 1 \<and> wind < 20
           then activities @ reduced_activities
         else if rain \<ge> 1
           then activities @ indoor_activities
         else activities)"

subsection \<open>Rain of the current conditions\<close>

text \<open>
  Both evaluators start with
  \<open>rain = weather_data.get('rain_1h', 0) + weather_data.get('rain_3h', 0)\<close>.
\<close>

definition current_rain :: "weather_data \<Rightarrow> real" where
  "current_rain weather = dict_get (rain_1h weather) 0 + dict_get (rain_3h weather) 0"

subsection \<open>Agriculture\<close>

text \<open>
  The three lists \<open>get_agriculture_recommendations\<close> appends to, in the order
  \<open>(recommendations, alerts, tasks)\<close>. Each block of the function is one step on them.
\<close>

type_synonym ag_lists = "fstring list \<times> alert list \<times> string list"

definition ag_wind :: "engine \<Rightarrow> weather_data \<Rightarrow> ag_lists \<Rightarrow> ag_lists" where
  "ag_wind self weather = (\<lambda>(recs, als, tks).
     if wind_speed weather > wind_speed_spray (ag_thresholds self)
       then (recs,
             als @ [high_wind_alert (wind_speed weather)],
             tks @ [postpone_spraying_task])
     else (recs, als, tks @ [good_spraying_task]))"

definition ag_temperature :: "engine \<Rightarrow> weather_data \<Rightarrow> ag_lists \<Rightarrow> ag_lists" where
  "ag_temperature self weather = (\<lambda>(recs, als, tks).
     if temperature weather \<le> frost_temp (ag_thresholds self)
       then (recs,
             als @ [frost_alert (temperature weather)],
             tks @ [frost_protection_task])
     else if temperature weather \<ge> heat_stress (ag_thresholds self)
       then (recs,
             als @ [heat_stress_alert (temperature weather)],
             tks @ [increase_irrigation_task])
     else (recs, als, tks))"

definition ag_rainfall ::
  "engine \<Rightarrow> weather_data \<Rightarrow> forecast_day list option \<Rightarrow> ag_lists \<Rightarrow> ag_lists" where
  "ag_rainfall self weather forecast = (\<lambda>(recs, als, tks).
     let rain = current_rain weather
     in if rain > rain_threshold (ag_thresholds self)
          then (recs @ [heavy_rain_advisory rain], als, tks @ [skip_irrigation_task])
        else if rain > 0
          then (recs @ [light_rain_advisory rain], als, tks)
        else if truthy forecast
          then (let upcoming_rain = sum_list (map total_rain (take 3 (the forecast)))
                in if upcoming_rain > 5
                     then (recs @ [upcoming_rain_advisory upcoming_rain], als, tks)
                   else (recs, als, tks @ [regular_irrigation_task]))
        else (recs, als, tks))"

definition ag_humidity :: "engine \<Rightarrow> weather_data \<Rightarrow> ag_lists \<Rightarrow> ag_lists" where
  "ag_humidity self weather = (\<lambda>(recs, als, tks).
     if humidity weather \<ge> high_humidity (ag_thresholds self)
       then (recs @ [fungal_advisory],
             als @ [high_humidity_alert (humidity weather)],
             tks @ [fungicide_task])
     else (recs, als, tks))"

definition get_agriculture_recommendations ::
  "engine \<Rightarrow> int \<Rightarrow> weather_data \<Rightarrow> forecast_day list option \<Rightarrow> agriculture_bundle" where
  "get_agriculture_recommendations self month weather forecast =
     (case ag_humidity self weather
             (ag_rainfall self weather forecast
               (ag_temperature self weather
                 (ag_wind self weather ([], [], [])))) of
        (recs, als, tks) \<Rightarrow>
          let current_season = get_season month;
              advice = get_crop_advice current_season weather
          in \<lparr>alerts = als,
              recommendations = recs @ map lit advice,
              tasks = tks,
              suitable_activities = get_suitable_farm_activities weather,
              crop_advice = advice\<rparr>)"

subsection \<open>Travel\<close>

record forecast_summary =
  summary :: string
  outlook :: string

definition analyze_forecast_for_travel ::
  "forecast_day list option \<Rightarrow> py_error + forecast_summary" where
  "analyze_forecast_for_travel forecast =
     (if \<not> truthy forecast
        then Inr \<lparr>summary = ''No forecast data available'', outlook = ''unknown''\<rparr>
      else
        let fs = the forecast;
            rain_sum = sum_list (map total_rain fs)
        in case py_truediv (sum_list (map temp_avg fs)) (real (length fs)) of
             Inl e \<Rightarrow> Inl e
           | Inr avg_temp \<Rightarrow>
               (case py_max (map wind_speed_max fs) of
                  Inl e \<Rightarrow> Inl e
                | Inr max_wind \<Rightarrow>
                    if rain_sum > 20 \<or> max_wind > 50
                      then Inr \<lparr>summary = ''Challenging weather ahead. Consider rescheduling outdoor activities.'',
                                outlook = ''poor''\<rparr>
                    else if rain_sum < 5 \<and> 15 \<le> avg_temp \<and> avg_temp \<le> 28
                      then Inr \<lparr>summary = ''Excellent weather forecast for the next few days!'',
                                outlook = ''excellent''\<rparr>
                    else Inr \<lparr>summary = ''Fair weather expected. Pack accordingly.'',
                              outlook = ''fair''\<rparr>))"

definition sunrise_suggestion :: "datetime \<Rightarrow> fstring" where
  "sunrise_suggestion t = [Lit ''Sunrise at '', StrfHM t, Lit '' - Great for photography'']"

definition sunset_suggestion :: "datetime \<Rightarrow> fstring" where
  "sunset_suggestion t = [Lit ''Sunset at '', StrfHM t, Lit '' - Beautiful evening views'']"

definition get_best_travel_times ::
  "weather_data \<Rightarrow> forecast_day list option \<Rightarrow> fstring list" where
  "get_best_travel_times weather forecast =
     (let s0 = [];
          s1 = (case sunrise weather of
                  Some t \<Rightarrow> s0 @ [sunrise_suggestion t]
                | None \<Rightarrow> s0);
          s2 = (case sunset weather of
                  Some t \<Rightarrow> s1 @ [sunset_suggestion t]
                | None \<Rightarrow> s1);
          temp = temperature weather
      in if temp > 30
           then s2 @
                [lit ''Visit outdoor attractions early morning or late evening to avoid heat'']
         else if temp < 10
           then s2 @
                [lit ''Midday (11 AM - 3 PM) will be warmest for outdoor activities'']
         else s2)"

text \<open>
  The three lists \<open>get_travel_recommendations\<close> appends to, in the order
  \<open>(recommendations, alerts, packing_list)\<close>, and \<open>description\<close>, the lower-cased
  \<open>main\<close> of the current conditions.
\<close>

type_synonym travel_lists = "fstring list \<times> alert list \<times> string list"

definition travel_description :: "weather_data \<Rightarrow> string" where
  "travel_description weather = lower (dict_get (main weather) [])"

definition travel_packing :: "engine \<Rightarrow> weather_data \<Rightarrow> travel_lists \<Rightarrow> travel_lists" where
  "travel_packing self weather = (\<lambda>(recs, als, pks).
     if temperature weather \<le> cold_weather (travel_thresholds self)
       then (recs @ [cold_advisory (temperature weather)], als, pks @ cold_packing)
     else if temperature weather \<ge> hot_weather (travel_thresholds self)
       then (recs @ [hot_advisory (temperature weather)], als, pks @ hot_packing)
     else (recs, als, pks @ mild_packing))"

definition travel_rain :: "engine \<Rightarrow> weather_data \<Rightarrow> travel_lists \<Rightarrow> travel_lists" where
  "travel_rain self weather = (\<lambda>(recs, als, pks).
     let rain = current_rain weather
     in if rain > rain_warning (travel_thresholds self)
           \<or> py_in ''rain'' (travel_description weather)
          then (recs @ [indoor_advisory], als @ [rain_expected_alert], pks @ rain_packing)
        else (recs, als, pks))"

definition travel_wind :: "engine \<Rightarrow> weather_data \<Rightarrow> travel_lists \<Rightarrow> travel_lists" where
  "travel_wind self weather = (\<lambda>(recs, als, pks).
     if wind_speed weather > wind_warning (travel_thresholds self)
       then (recs @ [exposed_areas_advisory],
             als @ [strong_winds_alert (wind_speed weather)],
             pks)
     else (recs, als, pks))"

definition travel_condition :: "weather_data \<Rightarrow> travel_lists \<Rightarrow> travel_lists" where
  "travel_condition weather = (\<lambda>(recs, als, pks).
     let d = travel_description weather
     in if py_in ''clear'' d \<or> py_in ''sun'' d
          then (recs @ [sightseeing_advisory], als, pks)
        else if py_in ''storm'' d \<or> py_in ''thunder'' d
          then (recs @ [postpone_advisory], als @ [storm_alert], pks)
        else if py_in ''fog'' d \<or> py_in ''mist'' d
          then (recs @ [driving_advisory], als @ [poor_visibility_alert], pks)
        else (recs, als, pks))"

text \<open>The lists after the four blocks on the current conditions.\<close>

definition travel_current :: "engine \<Rightarrow> weather_data \<Rightarrow> travel_lists" where
  "travel_current self weather =
     travel_condition weather
       (travel_wind self weather
         (travel_rain self weather
           (travel_packing self weather ([], [], []))))"

definition get_travel_recommendations ::
  "engine \<Rightarrow> weather_data \<Rightarrow> forecast_day list option \<Rightarrow> py_error + travel_bundle" where
  "get_travel_recommendations self weather forecast =
     (case travel_current self weather of
        (recs, als, pks) \<Rightarrow>
          if truthy forecast
            then (case analyze_forecast_for_travel forecast of
                    Inl e \<Rightarrow> Inl e
                  | Inr forecast_summary \<Rightarrow>
                      Inr \<lparr>alerts = als,
                           recommendations = recs @ [lit (summary forecast_summary)],
                           packing_list = pks,
                           travel_outlook = outlook forecast_summary,
                           best_times = get_best_travel_times weather forecast\<rparr>)
          else Inr \<lparr>alerts = als,
                    recommendations = recs,
                    packing_list = pks,
                    travel_outlook = ''good'',
                    best_times = get_best_travel_times weather forecast\<rparr>)"

section \<open>The forecast aggregator\<close>

text \<open>
  One element of \<open>data['list']\<close> in the provider's forecast response, with the keys
  \<open>_parse_forecast\<close> reads: \<open>item['dt']\<close>, the four numbers of \<open>item['main']\<close>,
  \<open>item['wind']['speed']\<close>, the three texts of \<open>item['weather'][0]\<close>,
  \<open>item['clouds']['all']\<close>, and the optional dictionaries \<open>item['rain']\<close> and
  \<open>item['snow']\<close>.
\<close>

record forecast_item =
  it_dt :: int
  it_temp :: real
  it_feels_like :: real
  it_humidity :: real
  it_pressure :: real
  it_wind_speed :: real
  it_description :: string
  it_main :: string
  it_icon :: string
  it_clouds :: real
  it_rain :: "(string \<rightharpoonup> real) option"
  it_snow :: "(string \<rightharpoonup> real) option"

text \<open>
  \<open>datetime.fromtimestamp\<close> converts to the local time zone of the process, so it is a
  parameter of the parser. \<open>utc_fromtimestamp\<close> is the conversion of a process that runs
  in UTC: day 719163 is 1 January 1970.
\<close>

definition utc_fromtimestamp :: "int \<Rightarrow> datetime" where
  "utc_fromtimestamp t = \<lparr>dt_date = 719163 + t div 86400, dt_second = nat (t mod 86400)\<rparr>"

definition to_reading :: "(int \<Rightarrow> datetime) \<Rightarrow> forecast_item \<Rightarrow> reading" where
  "to_reading fromtimestamp item =
     \<lparr>rd_datetime = fromtimestamp (it_dt item),
      rd_temperature = it_temp item,
      rd_feels_like = it_feels_like item,
      rd_humidity = it_humidity item,
      rd_pressure = it_pressure item,
      rd_wind_speed = it_wind_speed item * 3.6,
      rd_description = it_description item,
      rd_main = it_main item,
      rd_icon = it_icon item,
      rd_clouds = it_clouds item,
      rd_rain = dict_get (dict_get (it_rain item) Map.empty ''3h'') 0,
      rd_snow = dict_get (dict_get (it_snow item) Map.empty ''3h'') 0\<rparr>"

text \<open>
  \<open>daily_data\<close> is a dictionary, which keeps its keys in insertion order: an association
  list with one entry for each key. One turn of the grouping loop adds the key of a new
  date at the end with an empty list, and appends the reading to the list of its date.
\<close>

type_synonym daily_data = "(date \<times> reading list) list"

definition group_step :: "(int \<Rightarrow> datetime) \<Rightarrow> daily_data \<Rightarrow> forecast_item \<Rightarrow> daily_data" where
  "group_step fromtimestamp d item =
     (let dt = fromtimestamp (it_dt item);
          day = dt_date dt;
          d1 = (if day \<notin> fst ` set d then d @ [(day, [])] else d)
      in map (\<lambda>(k, vs). if k = day then (k, vs @ [to_reading fromtimestamp item]) else (k, vs))
           d1)"

definition group_by_date :: "(int \<Rightarrow> datetime) \<Rightarrow> forecast_item list \<Rightarrow> daily_data" where
  "group_by_date fromtimestamp items = foldl (group_step fromtimestamp) [] items"

definition aggregate_day :: "date \<times> reading list \<Rightarrow> py_error + forecast_day" where
  "aggregate_day = (\<lambda>(day, items).
     let temps = map rd_temperature items
     in case py_min temps of Inl e \<Rightarrow> Inl e | Inr tmin \<Rightarrow>
        (case py_max temps of Inl e \<Rightarrow> Inl e | Inr tmax \<Rightarrow>
        (case py_truediv (sum_list temps) (real (length temps)) of Inl e \<Rightarrow> Inl e | Inr tavg \<Rightarrow>
        (case py_truediv (sum_list (map rd_humidity items)) (real (length items)) of
           Inl e \<Rightarrow> Inl e | Inr havg \<Rightarrow>
        (case py_max (map rd_wind_speed items) of Inl e \<Rightarrow> Inl e | Inr wmax \<Rightarrow>
        (case py_getitem items (int (length items) div 2) of Inl e \<Rightarrow> Inl e | Inr mid \<Rightarrow>
        (case py_getitem items (int (length items) div 2) of Inl e \<Rightarrow> Inl e | Inr mid' \<Rightarrow>
           Inr \<lparr>date = day,
                temp_min = tmin,
                temp_max = tmax,
                temp_avg = tavg,
                humidity_avg = havg,
                wind_speed_max = wmax,
                total_rain = sum_list (map rd_rain items),
                total_snow = sum_list (map rd_snow items),
                description = rd_description mid,
                icon = rd_icon mid',
                details = items\<rparr>)))))))"

text \<open>The aggregation loop: the first exception ends it.\<close>

fun aggregate_days :: "daily_data \<Rightarrow> py_error + forecast_day list" where
  "aggregate_days [] = Inr []"
| "aggregate_days (x # xs) =
     (case aggregate_day x of
        Inl e \<Rightarrow> Inl e
      | Inr f \<Rightarrow> (case aggregate_days xs of Inl e \<Rightarrow> Inl e | Inr fs \<Rightarrow> Inr (f # fs)))"

text \<open>
  \<open>sorted(daily_data.items())\<close> compares the pairs by their date first, and no two pairs
  have the same date, so it sorts by date.
\<close>

definition parse_forecast ::
  "(int \<Rightarrow> datetime) \<Rightarrow> forecast_item list \<Rightarrow> int \<Rightarrow> py_error + forecast_day list" where
  "parse_forecast fromtimestamp data days =
     aggregate_days (py_slice_to days (sort_key fst (group_by_date fromtimestamp data)))"

text \<open>The dates and the readings of a response, for stating what the parser returns.\<close>

definition item_date :: "(int \<Rightarrow> datetime) \<Rightarrow> forecast_item \<Rightarrow> date" where
  "item_date fromtimestamp item = dt_date (fromtimestamp (it_dt item))"

definition dates_of :: "(int \<Rightarrow> datetime) \<Rightarrow> forecast_item list \<Rightarrow> date set" where
  "dates_of fromtimestamp data = item_date fromtimestamp ` set data"

definition readings_on :: "(int \<Rightarrow> datetime) \<Rightarrow> forecast_item list \<Rightarrow> date \<Rightarrow> reading list" where
  "readings_on fromtimestamp data day =
     map (to_reading fromtimestamp) (filter (\<lambda>item. item_date fromtimestamp item = day) data)"

text \<open>
  What the aggregator promises of one day: \<open>summarises f day items\<close> says that \<open>f\<close> is
  the summary of the readings \<open>items\<close> of the date \<open>day\<close>, with the minimum, the maximum
  and the mean of the temperatures, the mean humidity, the maximum wind speed, the sums of
  rain and snow, and the description and icon of the reading at index \<open>len // 2\<close>.
\<close>

definition summarises :: "forecast_day \<Rightarrow> date \<Rightarrow> reading list \<Rightarrow> bool" where
  "summarises f day items =
     (date f = day
      \<and> details f = items
      \<and> temp_min f = Min (set (map rd_temperature items))
      \<and> temp_max f = Max (set (map rd_temperature items))
      \<and> temp_avg f = sum_list (map rd_temperature items) / real (length items)
      \<and> humidity_avg f = sum_list (map rd_humidity items) / real (length items)
      \<and> wind_speed_max f = Max (set (map rd_wind_speed items))
      \<and> total_rain f = sum_list (map rd_rain items)
      \<and> total_snow f = sum_list (map rd_snow items)
      \<and> description f = rd_description (items ! (length items div 2))
      \<and> icon f = rd_icon (items ! (length items div 2)))"

text \<open>
  The same promise in terms of the provider's items: \<open>items_on\<close> are the items of a
  date, in the order of the response, and \<open>summarises_items f day items\<close> says that
  \<open>f\<close> is the day \<open>day\<close> aggregated from \<open>items\<close>. The temperatures and humidities
  are the item's own, the wind speed is the item's speed in m/s times 3.6, rain and snow are
  the \<open>3h\<close> entries of the item's \<open>rain\<close> and \<open>snow\<close> dictionaries (0 where the
  dictionary or the entry is missing), the description and icon are those of the item at
  index \<open>len // 2\<close>, and \<open>details\<close> holds one reading for each item, field by field.
\<close>

definition items_on :: "(int \<Rightarrow> datetime) \<Rightarrow> forecast_item list \<Rightarrow> date \<Rightarrow> forecast_item list" where
  "items_on fromtimestamp data day = filter (\<lambda>item. item_date fromtimestamp item = day) data"

definition rain_3h_of :: "forecast_item \<Rightarrow> real" where
  "rain_3h_of item =
     (case it_rain item of
        None \<Rightarrow> 0
      | Some m \<Rightarrow> (case m ''3h'' of None \<Rightarrow> 0 | Some v \<Rightarrow> v))"

definition snow_3h_of :: "forecast_item \<Rightarrow> real" where
  "snow_3h_of item =
     (case it_snow item of
        None \<Rightarrow> 0
      | Some m \<Rightarrow> (case m ''3h'' of None \<Rightarrow> 0 | Some v \<Rightarrow> v))"

definition summarises_items ::
  "(int \<Rightarrow> datetime) \<Rightarrow> forecast_day \<Rightarrow> date \<Rightarrow> forecast_item list \<Rightarrow> bool" where
  "summarises_items fromtimestamp f day items =
     (date f = day
      \<and> temp_min f = Min (set (map it_temp items))
      \<and> temp_max f = Max (set (map it_temp items))
      \<and> temp_avg f = sum_list (map it_temp items) / real (length items)
      \<and> humidity_avg f = sum_list (map it_humidity items) / real (length items)
      \<and> wind_speed_max f = Max (set (map (\<lambda>item. it_wind_speed item * 3.6) items))
      \<and> total_rain f = sum_list (map rain_3h_of items)
      \<and> total_snow f = sum_list (map snow_3h_of items)
      \<and> description f = it_description (items ! (length items div 2))
      \<and> icon f = it_icon (items ! (length items div 2))
      \<and> map rd_datetime (details f) = map (\<lambda>item. fromtimestamp (it_dt item)) items
      \<and> map rd_temperature (details f) = map it_temp items
      \<and> map rd_feels_like (details f) = map it_feels_like items
      \<and> map rd_humidity (details f) = map it_humidity items
      \<and> map rd_pressure (details f) = map it_pressure items
      \<and> map rd_wind_speed (details f) = map (\<lambda>item. it_wind_speed item * 3.6) items
      \<and> map rd_description (details f) = map it_description items
      \<and> map rd_main (details f) = map it_main items
      \<and> map rd_icon (details f) = map it_icon items
      \<and> map rd_clouds (details f) = map it_clouds items
      \<and> map rd_rain (details f) = map rain_3h_of items
      \<and> map rd_snow (details f) = map snow_3h_of items)"

section \<open>Example inputs\<close>

definition snapshot :: "real \<Rightarrow> real \<Rightarrow> real \<Rightarrow> real \<Rightarrow> real \<Rightarrow> string \<Rightarrow> weather_data" where
  "snapshot temp wind hum r1 r3 cond =
     \<lparr>temperature = temp, wind_speed = wind, humidity = hum, rain_1h = Some r1,
      rain_3h = Some r3, main = Some cond, sunrise = None, sunset = None\<rparr>"

definition day_of :: "real \<Rightarrow> real \<Rightarrow> real \<Rightarrow> forecast_day" where
  "day_of rain temp wind =
     \<lparr>date = 0, temp_min = temp, temp_max = temp, temp_avg = temp, humidity_avg = 50,
      wind_speed_max = wind, total_rain = rain, total_snow = 0, description = ''clear sky'',
      icon = ''01d'', details = []\<rparr>"

definition item_at :: "int \<Rightarrow> real \<Rightarrow> string \<Rightarrow> forecast_item" where
  "item_at t temp desc =
     \<lparr>it_dt = t, it_temp = temp, it_feels_like = temp, it_humidity = 50, it_pressure = 1013,
      it_wind_speed = 5, it_description = desc, it_main = ''Clouds'', it_icon = ''04d'',
      it_clouds = 40, it_rain = None, it_snow = None\<rparr>"

text \<open>Eight three-hourly readings, four on each of two days.\<close>

definition two_days :: "forecast_item list" where
  "two_days =
     [item_at 43200 10 ''a'', item_at 54000 12 ''b'', item_at 64800 14 ''c'',
      item_at 75600 11 ''d'', item_at 86400 8 ''e'', item_at 97200 9 ''f'',
      item_at 108000 15 ''g'', item_at 118800 13 ''h'']"

text \<open>A day with a wet reading between two dry ones, and a day with a single reading.\<close>

definition wet_item :: "int \<Rightarrow> real \<Rightarrow> real \<Rightarrow> real \<Rightarrow> real \<Rightarrow> string \<Rightarrow> forecast_item" where
  "wet_item t temp hum wind rain desc =
     \<lparr>it_dt = t, it_temp = temp, it_feels_like = temp, it_humidity = hum, it_pressure = 1013,
      it_wind_speed = wind, it_description = desc, it_main = ''Rain'', it_icon = ''10d'',
      it_clouds = 90, it_rain = Some [''3h'' \<mapsto> rain], it_snow = Some Map.empty\<rparr>"

definition mixed_days :: "forecast_item list" where
  "mixed_days =
     [item_at 97200 9 ''late'', item_at 0 4 ''dry'', wet_item 10800 6 70 10 3 ''wet'',
      item_at 21600 5 ''dusk'']"

text \<open>One reading on each of five days, the latest day first.\<close>

definition five_days :: "forecast_item list" where
  "five_days =
     [item_at 345600 5 ''e'', item_at 0 1 ''a'', item_at 259200 4 ''d'',
      item_at 86400 2 ''b'', item_at 172800 3 ''c'']"

section \<open>Properties of the agriculture evaluator\<close>

lemmas ag_step_defs = ag_wind_def ag_temperature_def ag_rainfall_def ag_humidity_def

lemmas symbol_defs = warning_sign_def check_mark_def snowflake_def degree_sign_def
  thermometer_def droplet_def umbrella_def dash_symbol_def thunder_cloud_def fog_symbol_def

lemmas ag_alert_defs = high_wind_alert_def frost_alert_def heat_stress_alert_def
  high_humidity_alert_def

lemmas ag_task_defs = postpone_spraying_task_def good_spraying_task_def
  frost_protection_task_def increase_irrigation_task_def skip_irrigation_task_def
  regular_irrigation_task_def fungicide_task_def

lemmas ag_advisory_defs = heavy_rain_advisory_def light_rain_advisory_def
  upcoming_rain_advisory_def fungal_advisory_def lit_def

text \<open>
  The three lists of the bundle, block by block: what the wind, temperature, rainfall and
  humidity blocks contribute, in the order of the source.
\<close>

lemma ag_alerts_eq:
  "alerts (get_agriculture_recommendations self month w fc) =
     (if wind_speed w > wind_speed_spray (ag_thresholds self)
        then [high_wind_alert (wind_speed w)] else [])
     @ (if temperature w \<le> frost_temp (ag_thresholds self)
          then [frost_alert (temperature w)]
        else if temperature w \<ge> heat_stress (ag_thresholds self)
          then [heat_stress_alert (temperature w)] else [])
     @ (if humidity w \<ge> high_humidity (ag_thresholds self)
          then [high_humidity_alert (humidity w)] else [])"
  by (simp add: get_agriculture_recommendations_def ag_step_defs Let_def)

lemma ag_tasks_eq:
  "tasks (get_agriculture_recommendations self month w fc) =
     (if wind_speed w > wind_speed_spray (ag_thresholds self)
        then [postpone_spraying_task] else [good_spraying_task])
     @ (if temperature w \<le> frost_temp (ag_thresholds self)
          then [frost_protection_task]
        else if temperature w \<ge> heat_stress (ag_thresholds self)
          then [increase_irrigation_task] else [])
     @ (if current_rain w > rain_threshold (ag_thresholds self) then [skip_irrigation_task]
        else if current_rain w > 0 then []
        else if truthy fc \<and> \<not> sum_list (map total_rain (take 3 (the fc))) > 5
          then [regular_irrigation_task] else [])
     @ (if humidity w \<ge> high_humidity (ag_thresholds self)
          then [fungicide_task] else [])"
  by (simp add: get_agriculture_recommendations_def ag_step_defs Let_def)

lemma ag_recommendations_eq:
  "recommendations (get_agriculture_recommendations self month w fc) =
     (if current_rain w > rain_threshold (ag_thresholds self)
        then [heavy_rain_advisory (current_rain w)]
      else if current_rain w > 0 then [light_rain_advisory (current_rain w)]
      else if truthy fc \<and> sum_list (map total_rain (take 3 (the fc))) > 5
        then [upcoming_rain_advisory (sum_list (map total_rain (take 3 (the fc))))] else [])
     @ (if humidity w \<ge> high_humidity (ag_thresholds self) then [fungal_advisory] else [])
     @ map lit (get_crop_advice (get_season month) w)"
  by (simp add: get_agriculture_recommendations_def ag_step_defs Let_def)

text \<open>
  Claim C1. The temperature rule of the agriculture evaluator is mutually exclusive. For
  every snapshot, thresholds, month and forecast: when the temperature is at most
  \<open>frost_temp\<close>, the bundle has the frost alert, which is a danger alert of critical
  severity, and the frost-protection task, and no alert of the bundle has the title of the
  heat-stress alert. Otherwise, when the temperature is at least \<open>heat_stress\<close>, the
  bundle has the heat-stress alert, a warning of high severity, and the
  increase-irrigation task, and no alert has the title of the frost alert. Under the
  default thresholds a temperature of -5 gives the frost alert and no heat-stress alert.
\<close>

theorem agriculture_temperature_rule:
  "(temperature w \<le> frost_temp (ag_thresholds self) \<longrightarrow>
      frost_alert (temperature w) \<in> set (alerts (get_agriculture_recommendations self month w fc))
      \<and> alert_type (frost_alert (temperature w)) = ''danger''
      \<and> severity (frost_alert (temperature w)) = ''critical''
      \<and> frost_protection_task \<in> set (tasks (get_agriculture_recommendations self month w fc))
      \<and> (\<forall>a \<in> set (alerts (get_agriculture_recommendations self month w fc)).
            title a \<noteq> thermometer @ '' Heat Stress Alert''))
   \<and> (\<not> temperature w \<le> frost_temp (ag_thresholds self)
        \<and> temperature w \<ge> heat_stress (ag_thresholds self) \<longrightarrow>
      heat_stress_alert (temperature w)
        \<in> set (alerts (get_agriculture_recommendations self month w fc))
      \<and> alert_type (heat_stress_alert (temperature w)) = ''warning''
      \<and> severity (heat_stress_alert (temperature w)) = ''high''
      \<and> increase_irrigation_task \<in> set (tasks (get_agriculture_recommendations self month w fc))
      \<and> (\<forall>a \<in> set (alerts (get_agriculture_recommendations self month w fc)).
            title a \<noteq> snowflake @ '' Frost Warning''))
   \<and> (temperature w = - 5 \<longrightarrow>
      frost_alert (- 5)
        \<in> set (alerts (get_agriculture_recommendations RecommendationEngine month w fc))
      \<and> (\<forall>a \<in> set (alerts (get_agriculture_recommendations RecommendationEngine month w fc)).
            title a \<noteq> thermometer @ '' Heat Stress Alert''))"
  by (auto simp add: ag_alerts_eq ag_tasks_eq ag_alert_defs symbol_defs RecommendationEngine_def
      AGRICULTURE_THRESHOLDS_def)

theorem agriculture_temperature_rule_witness:
  "temperature (snapshot (- 5) 5 50 0 0 ''Clear'') \<le> frost_temp (ag_thresholds RecommendationEngine)
   \<and> temperature (snapshot (- 5) 5 50 0 0 ''Clear'') = - 5
   \<and> frost_alert (- 5) \<in> set (alerts (get_agriculture_recommendations RecommendationEngine 1
         (snapshot (- 5) 5 50 0 0 ''Clear'') None))
   \<and> frost_protection_task \<in> set (tasks (get_agriculture_recommendations RecommendationEngine 1
         (snapshot (- 5) 5 50 0 0 ''Clear'') None))
   \<and> \<not> temperature (snapshot 40 5 50 0 0 ''Clear'') \<le> frost_temp (ag_thresholds RecommendationEngine)
   \<and> temperature (snapshot 40 5 50 0 0 ''Clear'') \<ge> heat_stress (ag_thresholds RecommendationEngine)
   \<and> heat_stress_alert 40 \<in> set (alerts (get_agriculture_recommendations RecommendationEngine 1
         (snapshot 40 5 50 0 0 ''Clear'') None))"
  using agriculture_temperature_rule [of "snapshot (- 5) 5 50 0 0 ''Clear''" RecommendationEngine 1 None]
    agriculture_temperature_rule [of "snapshot 40 5 50 0 0 ''Clear''" RecommendationEngine 1 None]
  by (simp add: snapshot_def RecommendationEngine_def AGRICULTURE_THRESHOLDS_def)

text \<open>
  Claim C10. For every snapshot and forecast the list of tasks of the agriculture bundle
  is not empty: its first task comes from the wind block, which is the postpone-spraying
  task when the wind speed exceeds \<open>wind_speed_spray\<close> and the good-conditions task
  otherwise.
\<close>

theorem agriculture_tasks_nonempty:
  "tasks (get_agriculture_recommendations self month w fc) \<noteq> []
   \<and> (wind_speed w > wind_speed_spray (ag_thresholds self) \<longrightarrow>
        hd (tasks (get_agriculture_recommendations self month w fc)) = postpone_spraying_task)
   \<and> (\<not> wind_speed w > wind_speed_spray (ag_thresholds self) \<longrightarrow>
        hd (tasks (get_agriculture_recommendations self month w fc)) = good_spraying_task)"
  by (simp add: ag_tasks_eq)

theorem agriculture_tasks_nonempty_witness:
  "wind_speed (snapshot 20 25 50 0 0 ''Clear'') > wind_speed_spray (ag_thresholds RecommendationEngine)
   \<and> hd (tasks (get_agriculture_recommendations RecommendationEngine 1
           (snapshot 20 25 50 0 0 ''Clear'') None)) = postpone_spraying_task
   \<and> \<not> wind_speed (snapshot 20 5 50 0 0 ''Clear'') > wind_speed_spray (ag_thresholds RecommendationEngine)
   \<and> hd (tasks (get_agriculture_recommendations RecommendationEngine 1
           (snapshot 20 5 50 0 0 ''Clear'') None)) = good_spraying_task"
  using agriculture_tasks_nonempty [of RecommendationEngine 1 "snapshot 20 25 50 0 0 ''Clear''" None]
    agriculture_tasks_nonempty [of RecommendationEngine 1 "snapshot 20 5 50 0 0 ''Clear''" None]
  by (simp add: snapshot_def RecommendationEngine_def AGRICULTURE_THRESHOLDS_def)

text \<open>
  Claim C3. The suitable activities follow a chain in which the first match wins: with
  \<open>rain_1h\<close> below 1, wind below 20 and a temperature from 10 to 30 the result is the
  full set of five activities; else with \<open>rain_1h\<close> below 1 and wind below 20 it is the
  reduced set of three; else with \<open>rain_1h\<close> at least 1 it is the indoor set of three;
  and in the case that is left, \<open>rain_1h\<close> below 1 with wind at least 20, it is empty.
  So \<open>rain_1h = 0\<close>, wind 25, temperature 20 gives no activity and \<open>rain_1h = 0\<close>,
  wind 10, temperature 20 gives the full set. The bundle carries this list unchanged.
\<close>

theorem suitable_activities_chain:
  "(dict_get (rain_1h w) 0 < 1 \<and> wind_speed w < 20 \<and> 10 \<le> temperature w \<and> temperature w \<le> 30 \<longrightarrow>
      get_suitable_farm_activities w = full_activities \<and> length full_activities = 5)
   \<and> (dict_get (rain_1h w) 0 < 1 \<and> wind_speed w < 20
        \<and> \<not> (10 \<le> temperature w \<and> temperature w \<le> 30) \<longrightarrow>
      get_suitable_farm_activities w = reduced_activities \<and> length reduced_activities = 3)
   \<and> (\<not> (dict_get (rain_1h w) 0 < 1 \<and> wind_speed w < 20) \<and> dict_get (rain_1h w) 0 \<ge> 1 \<longrightarrow>
      get_suitable_farm_activities w = indoor_activities \<and> length indoor_activities = 3)
   \<and> (dict_get (rain_1h w) 0 < 1 \<and> wind_speed w \<ge> 20 \<longrightarrow> get_suitable_farm_activities w = [])
   \<and> (rain_1h w = Some 0 \<and> wind_speed w = 25 \<and> temperature w = 20 \<longrightarrow>
      get_suitable_farm_activities w = [])
   \<and> (rain_1h w = Some 0 \<and> wind_speed w = 10 \<and> temperature w = 20 \<longrightarrow>
      get_suitable_farm_activities w = full_activities)
   \<and> suitable_activities (get_agriculture_recommendations self month w fc)
       = get_suitable_farm_activities w"
  by (auto simp add: get_suitable_farm_activities_def get_agriculture_recommendations_def
      full_activities_def reduced_activities_def indoor_activities_def Let_def split: prod.splits)

theorem suitable_activities_chain_witness:
  "rain_1h (snapshot 20 25 50 0 0 ''Clear'') = Some 0
   \<and> wind_speed (snapshot 20 25 50 0 0 ''Clear'') = 25
   \<and> temperature (snapshot 20 25 50 0 0 ''Clear'') = 20
   \<and> get_suitable_farm_activities (snapshot 20 25 50 0 0 ''Clear'') = []
   \<and> rain_1h (snapshot 20 10 50 0 0 ''Clear'') = Some 0
   \<and> wind_speed (snapshot 20 10 50 0 0 ''Clear'') = 10
   \<and> temperature (snapshot 20 10 50 0 0 ''Clear'') = 20
   \<and> get_suitable_farm_activities (snapshot 20 10 50 0 0 ''Clear'') = full_activities
   \<and> dict_get (rain_1h (snapshot 5 10 50 0 0 ''Clear'')) 0 < 1
   \<and> wind_speed (snapshot 5 10 50 0 0 ''Clear'') < 20
   \<and> \<not> (10 \<le> temperature (snapshot 5 10 50 0 0 ''Clear'')
         \<and> temperature (snapshot 5 10 50 0 0 ''Clear'') \<le> 30)
   \<and> get_suitable_farm_activities (snapshot 5 10 50 0 0 ''Clear'') = reduced_activities
   \<and> dict_get (rain_1h (snapshot 20 10 50 2 0 ''Rain'')) 0 \<ge> 1
   \<and> get_suitable_farm_activities (snapshot 20 10 50 2 0 ''Rain'') = indoor_activities"
  using suitable_activities_chain [of "snapshot 20 25 50 0 0 ''Clear''" RecommendationEngine 1 None]
    suitable_activities_chain [of "snapshot 20 10 50 0 0 ''Clear''" RecommendationEngine 1 None]
    suitable_activities_chain [of "snapshot 5 10 50 0 0 ''Clear''" RecommendationEngine 1 None]
    suitable_activities_chain [of "snapshot 20 10 50 2 0 ''Rain''" RecommendationEngine 1 None]
  by (simp add: snapshot_def)

text \<open>
  Claim C2, as the code has it. The rain block branches three ways on
  \<open>rain = rain_1h + rain_3h\<close>, and the branches exclude each other. Above
  \<open>rain_threshold\<close>: the heavy-rain advisory and the skip-irrigation task, and none of the
  other outputs. Else above 0: the light-rain advisory only. Else: no heavy-rain or
  light-rain output, and the forecast decides. With a forecast that is not empty, the
  sum of \<open>total_rain\<close> over its first three days gives the upcoming-rain advisory when it
  exceeds 5 and the regular-irrigation task otherwise, exactly one of the two. With no
  forecast, or an empty one, neither of the two appears.
\<close>

theorem agriculture_rain_rule:
  "(current_rain w > rain_threshold (ag_thresholds self) \<longrightarrow>
      heavy_rain_advisory (current_rain w)
        \<in> set (recommendations (get_agriculture_recommendations self month w fc))
      \<and> skip_irrigation_task \<in> set (tasks (get_agriculture_recommendations self month w fc))
      \<and> (\<forall>x. light_rain_advisory x
             \<notin> set (recommendations (get_agriculture_recommendations self month w fc)))
      \<and> (\<forall>x. upcoming_rain_advisory x
             \<notin> set (recommendations (get_agriculture_recommendations self month w fc)))
      \<and> regular_irrigation_task \<notin> set (tasks (get_agriculture_recommendations self month w fc)))
   \<and> (\<not> current_rain w > rain_threshold (ag_thresholds self) \<and> current_rain w > 0 \<longrightarrow>
      light_rain_advisory (current_rain w)
        \<in> set (recommendations (get_agriculture_recommendations self month w fc))
      \<and> (\<forall>x. heavy_rain_advisory x
             \<notin> set (recommendations (get_agriculture_recommendations self month w fc)))
      \<and> skip_irrigation_task \<notin> set (tasks (get_agriculture_recommendations self month w fc))
      \<and> (\<forall>x. upcoming_rain_advisory x
             \<notin> set (recommendations (get_agriculture_recommendations self month w fc)))
      \<and> regular_irrigation_task \<notin> set (tasks (get_agriculture_recommendations self month w fc)))
   \<and> (\<not> current_rain w > rain_threshold (ag_thresholds self) \<and> \<not> current_rain w > 0 \<longrightarrow>
      (\<forall>x. heavy_rain_advisory x
             \<notin> set (recommendations (get_agriculture_recommendations self month w fc)))
      \<and> (\<forall>x. light_rain_advisory x
             \<notin> set (recommendations (get_agriculture_recommendations self month w fc)))
      \<and> skip_irrigation_task \<notin> set (tasks (get_agriculture_recommendations self month w fc))
      \<and> (truthy fc \<and> sum_list (map total_rain (take 3 (the fc))) > 5 \<longrightarrow>
            upcoming_rain_advisory (sum_list (map total_rain (take 3 (the fc))))
              \<in> set (recommendations (get_agriculture_recommendations self month w fc))
            \<and> regular_irrigation_task
                \<notin> set (tasks (get_agriculture_recommendations self month w fc)))
      \<and> (truthy fc \<and> \<not> sum_list (map total_rain (take 3 (the fc))) > 5 \<longrightarrow>
            regular_irrigation_task
              \<in> set (tasks (get_agriculture_recommendations self month w fc))
            \<and> (\<forall>x. upcoming_rain_advisory x
                   \<notin> set (recommendations (get_agriculture_recommendations self month w fc))))
      \<and> (\<not> truthy fc \<longrightarrow>
            regular_irrigation_task
              \<notin> set (tasks (get_agriculture_recommendations self month w fc))
            \<and> (\<forall>x. upcoming_rain_advisory x
                   \<notin> set (recommendations (get_agriculture_recommendations self month w fc)))))"
  by (auto simp add: ag_recommendations_eq ag_tasks_eq ag_task_defs ag_advisory_defs symbol_defs)

theorem agriculture_rain_rule_witness:
  "current_rain (snapshot 20 5 50 12 0 ''Rain'') > rain_threshold (ag_thresholds RecommendationEngine)
   \<and> skip_irrigation_task \<in> set (tasks (get_agriculture_recommendations RecommendationEngine 1
         (snapshot 20 5 50 12 0 ''Rain'') None))
   \<and> \<not> current_rain (snapshot 20 5 50 2 0 ''Rain'') > rain_threshold (ag_thresholds RecommendationEngine)
   \<and> current_rain (snapshot 20 5 50 2 0 ''Rain'') > 0
   \<and> light_rain_advisory 2 \<in> set (recommendations (get_agriculture_recommendations
         RecommendationEngine 1 (snapshot 20 5 50 2 0 ''Rain'') None))
   \<and> \<not> current_rain (snapshot 20 5 50 0 0 ''Clear'') > 0
   \<and> truthy (Some [day_of 3 20 10, day_of 4 20 10])
   \<and> sum_list (map total_rain (take 3 [day_of 3 20 10, day_of 4 20 10])) > 5
   \<and> upcoming_rain_advisory 7 \<in> set (recommendations (get_agriculture_recommendations
         RecommendationEngine 1 (snapshot 20 5 50 0 0 ''Clear'')
         (Some [day_of 3 20 10, day_of 4 20 10])))
   \<and> truthy (Some [day_of 1 20 10])
   \<and> \<not> sum_list (map total_rain (take 3 [day_of 1 20 10])) > 5
   \<and> regular_irrigation_task \<in> set (tasks (get_agriculture_recommendations
         RecommendationEngine 1 (snapshot 20 5 50 0 0 ''Clear'') (Some [day_of 1 20 10])))
   \<and> \<not> truthy (None :: forecast_day list option)
   \<and> regular_irrigation_task \<notin> set (tasks (get_agriculture_recommendations
         RecommendationEngine 1 (snapshot 20 5 50 0 0 ''Clear'') None))"
  using agriculture_rain_rule [where w = "snapshot 20 5 50 12 0 ''Rain''" and self = RecommendationEngine
      and month = 1 and fc = "None"]
    agriculture_rain_rule [where w = "snapshot 20 5 50 2 0 ''Rain''" and self = RecommendationEngine
      and month = 1 and fc = "None"]
    agriculture_rain_rule [where w = "snapshot 20 5 50 0 0 ''Clear''" and self = RecommendationEngine
      and month = 1 and fc = "Some [day_of 3 20 10, day_of 4 20 10]"]
    agriculture_rain_rule [where w = "snapshot 20 5 50 0 0 ''Clear''" and self = RecommendationEngine
      and month = 1 and fc = "Some [day_of 1 20 10]"]
    agriculture_rain_rule [where w = "snapshot 20 5 50 0 0 ''Clear''" and self = RecommendationEngine
      and month = 1 and fc = "None"]
  by (simp add: snapshot_def current_rain_def RecommendationEngine_def AGRICULTURE_THRESHOLDS_def
      day_of_def)

text \<open>
  Claim C2 as stated fails without a forecast: a snapshot with no rain and the forecast
  \<open>None\<close> gets the spraying task as its only task and the seasonal advice as its only
  recommendations, so neither the upcoming-rain advisory nor the regular-irrigation task.
\<close>

theorem agriculture_rain_rule_counterexample:
  "current_rain (snapshot 20 5 50 0 0 ''Clear'') = 0
   \<and> tasks (get_agriculture_recommendations RecommendationEngine 1
        (snapshot 20 5 50 0 0 ''Clear'') None) = [good_spraying_task]
   \<and> recommendations (get_agriculture_recommendations RecommendationEngine 1
        (snapshot 20 5 50 0 0 ''Clear'') None)
      = [lit ''Protect crops from frost'', lit ''Plan for spring planting'',
         lit ''Maintain irrigation systems'']"
  by (simp add: ag_recommendations_eq ag_tasks_eq current_rain_def snapshot_def
      RecommendationEngine_def AGRICULTURE_THRESHOLDS_def get_crop_advice_def get_season_def
      crop_calendar_def)

section \<open>Properties of the travel evaluator\<close>

text \<open>On a list that is not empty, Python's \<open>max\<close> and \<open>min\<close> are the maximum and minimum.\<close>

lemma py_max_Max: "xs \<noteq> [] \<Longrightarrow> py_max xs = Inr (Max (set xs))"
  by (cases xs) (simp_all add: Max.set_eq_fold [symmetric])

lemma py_min_Min: "xs \<noteq> [] \<Longrightarrow> py_min xs = Inr (Min (set xs))"
  by (cases xs) (simp_all add: Min.set_eq_fold [symmetric])

lemma analyze_falsy:
  "\<not> truthy fc \<Longrightarrow> analyze_forecast_for_travel fc =
     Inr \<lparr>summary = ''No forecast data available'', outlook = ''unknown''\<rparr>"
  by (simp add: analyze_forecast_for_travel_def)

lemma analyze_nonempty:
  "fs \<noteq> [] \<Longrightarrow> analyze_forecast_for_travel (Some fs) =
     (if sum_list (map total_rain fs) > 20 \<or> Max (set (map wind_speed_max fs)) > 50
        then Inr \<lparr>summary = ''Challenging weather ahead. Consider rescheduling outdoor activities.'',
                  outlook = ''poor''\<rparr>
      else if sum_list (map total_rain fs) < 5
              \<and> 15 \<le> sum_list (map temp_avg fs) / real (length fs)
              \<and> sum_list (map temp_avg fs) / real (length fs) \<le> 28
        then Inr \<lparr>summary = ''Excellent weather forecast for the next few days!'',
                  outlook = ''excellent''\<rparr>
      else Inr \<lparr>summary = ''Fair weather expected. Pack accordingly.'', outlook = ''fair''\<rparr>)"
  by (simp add: analyze_forecast_for_travel_def py_truediv_def py_max_Max Let_def)

lemma truthy_cases: "truthy fc \<Longrightarrow> \<exists>fs. fc = Some fs \<and> fs \<noteq> []"
  by (cases fc) simp_all

lemma analyze_truthy:
  "truthy fc \<Longrightarrow> \<exists>s. analyze_forecast_for_travel fc = Inr s
     \<and> (summary s, outlook s) \<in>
         {(''Challenging weather ahead. Consider rescheduling outdoor activities.'', ''poor''),
          (''Excellent weather forecast for the next few days!'', ''excellent''),
          (''Fair weather expected. Pack accordingly.'', ''fair'')}"
  by (auto dest!: truthy_cases simp add: analyze_nonempty)

lemmas travel_step_defs = travel_current_def travel_packing_def travel_rain_def
  travel_wind_def travel_condition_def

lemmas travel_text_defs = rain_expected_alert_def strong_winds_alert_def storm_alert_def
  poor_visibility_alert_def cold_advisory_def hot_advisory_def indoor_advisory_def
  exposed_areas_advisory_def sightseeing_advisory_def postpone_advisory_def
  driving_advisory_def lit_def

lemma travel_current_alerts:
  "fst (snd (travel_current self w)) =
     (if current_rain w > rain_warning (travel_thresholds self)
         \<or> py_in ''rain'' (travel_description w)
        then [rain_expected_alert] else [])
     @ (if wind_speed w > wind_warning (travel_thresholds self)
          then [strong_winds_alert (wind_speed w)] else [])
     @ (if py_in ''clear'' (travel_description w) \<or> py_in ''sun'' (travel_description w)
          then []
        else if py_in ''storm'' (travel_description w) \<or> py_in ''thunder'' (travel_description w)
          then [storm_alert]
        else if py_in ''fog'' (travel_description w) \<or> py_in ''mist'' (travel_description w)
          then [poor_visibility_alert] else [])"
  by (simp add: travel_step_defs Let_def)

lemma travel_current_recs:
  "fst (travel_current self w) =
     (if temperature w \<le> cold_weather (travel_thresholds self)
        then [cold_advisory (temperature w)]
      else if temperature w \<ge> hot_weather (travel_thresholds self)
        then [hot_advisory (temperature w)] else [])
     @ (if current_rain w > rain_warning (travel_thresholds self)
           \<or> py_in ''rain'' (travel_description w)
          then [indoor_advisory] else [])
     @ (if wind_speed w > wind_warning (travel_thresholds self)
          then [exposed_areas_advisory] else [])
     @ (if py_in ''clear'' (travel_description w) \<or> py_in ''sun'' (travel_description w)
          then [sightseeing_advisory]
        else if py_in ''storm'' (travel_description w) \<or> py_in ''thunder'' (travel_description w)
          then [postpone_advisory]
        else if py_in ''fog'' (travel_description w) \<or> py_in ''mist'' (travel_description w)
          then [driving_advisory] else [])"
  by (simp add: travel_step_defs Let_def)

lemma travel_current_packing:
  "snd (snd (travel_current self w)) =
     (if temperature w \<le> cold_weather (travel_thresholds self) then cold_packing
      else if temperature w \<ge> hot_weather (travel_thresholds self) then hot_packing
      else mild_packing)
     @ (if current_rain w > rain_warning (travel_thresholds self)
           \<or> py_in ''rain'' (travel_description w)
          then rain_packing else [])"
  by (simp add: travel_step_defs Let_def)

lemma get_travel_falsy:
  "\<not> truthy fc \<Longrightarrow> get_travel_recommendations self w fc =
     Inr \<lparr>alerts = fst (snd (travel_current self w)),
          recommendations = fst (travel_current self w),
          packing_list = snd (snd (travel_current self w)),
          travel_outlook = ''good'',
          best_times = get_best_travel_times w fc\<rparr>"
  by (simp add: get_travel_recommendations_def split: prod.splits)

lemma get_travel_truthy:
  "truthy fc \<Longrightarrow> analyze_forecast_for_travel fc = Inr s \<Longrightarrow>
   get_travel_recommendations self w fc =
     Inr \<lparr>alerts = fst (snd (travel_current self w)),
          recommendations = fst (travel_current self w) @ [lit (summary s)],
          packing_list = snd (snd (travel_current self w)),
          travel_outlook = outlook s,
          best_times = get_best_travel_times w fc\<rparr>"
  by (simp add: get_travel_recommendations_def split: prod.splits)

lemma best_times_forecast: "get_best_travel_times w fc = get_best_travel_times w fc'"
  by (simp add: get_best_travel_times_def)

lemma travel_current_no_summary:
  "lit s \<in> set (fst (travel_current self w)) \<Longrightarrow>
     s \<notin> {''No forecast data available'',
           ''Challenging weather ahead. Consider rescheduling outdoor activities.'',
           ''Excellent weather forecast for the next few days!'',
           ''Fair weather expected. Pack accordingly.''}"
  by (auto simp add: travel_current_recs travel_text_defs split: if_splits)


text \<open>
  Claim C4. For every forecast that is not empty the travel evaluator returns a bundle,
  and its outlook is \<open>poor\<close> when the sum of \<open>total_rain\<close> over all days exceeds 20 or
  the maximum of \<open>wind_speed_max\<close> exceeds 50; else \<open>excellent\<close> when that sum is below 5
  and the mean of \<open>temp_avg\<close> lies in [15, 28]; else \<open>fair\<close>.
\<close>

theorem travel_outlook_classification:
  "fs \<noteq> [] \<Longrightarrow>
   \<exists>b. get_travel_recommendations self w (Some fs) = Inr b
     \<and> travel_outlook b =
         (if sum_list (map total_rain fs) > 20 \<or> Max (set (map wind_speed_max fs)) > 50
            then ''poor''
          else if sum_list (map total_rain fs) < 5
                  \<and> 15 \<le> sum_list (map temp_avg fs) / real (length fs)
                  \<and> sum_list (map temp_avg fs) / real (length fs) \<le> 28
            then ''excellent''
          else ''fair'')"
  by (simp add: get_travel_recommendations_def analyze_nonempty split: prod.splits)

theorem travel_outlook_classification_witness:
  "[day_of 30 20 10] \<noteq> []
   \<and> (\<exists>b. get_travel_recommendations RecommendationEngine (snapshot 20 5 50 0 0 ''Clear'')
         (Some [day_of 30 20 10]) = Inr b \<and> travel_outlook b = ''poor'')
   \<and> (\<exists>b. get_travel_recommendations RecommendationEngine (snapshot 20 5 50 0 0 ''Clear'')
         (Some [day_of 0 20 10, day_of 2 22 60]) = Inr b \<and> travel_outlook b = ''poor'')
   \<and> (\<exists>b. get_travel_recommendations RecommendationEngine (snapshot 20 5 50 0 0 ''Clear'')
         (Some [day_of 1 20 10, day_of 2 22 10]) = Inr b \<and> travel_outlook b = ''excellent'')
   \<and> (\<exists>b. get_travel_recommendations RecommendationEngine (snapshot 20 5 50 0 0 ''Clear'')
         (Some [day_of 1 5 10, day_of 2 7 10]) = Inr b \<and> travel_outlook b = ''fair'')"
  using travel_outlook_classification [of "[day_of 30 20 10]" RecommendationEngine
      "snapshot 20 5 50 0 0 ''Clear''"]
    travel_outlook_classification [of "[day_of 0 20 10, day_of 2 22 60]" RecommendationEngine
      "snapshot 20 5 50 0 0 ''Clear''"]
    travel_outlook_classification [of "[day_of 1 20 10, day_of 2 22 10]" RecommendationEngine
      "snapshot 20 5 50 0 0 ''Clear''"]
    travel_outlook_classification [of "[day_of 1 5 10, day_of 2 7 10]" RecommendationEngine
      "snapshot 20 5 50 0 0 ''Clear''"]
  by (simp add: day_of_def)

text \<open>
  Claim C5. With the forecast \<open>None\<close> or empty the travel evaluator raises nothing: it
  returns a bundle whose outlook is \<open>good\<close>, whose alerts, recommendations and packing
  list are those of the four blocks on the current conditions, and whose best times are
  computed as usual. No forecast summary is among its recommendations. The blocks on the
  current conditions do not depend on the forecast: any other run on the same snapshot has
  the same alerts, packing list and best times, and its recommendations are the same ones,
  followed by one summary when its forecast is not empty.
\<close>

theorem travel_without_forecast:
  assumes "fc = None \<or> fc = Some []"
  shows "\<exists>b. get_travel_recommendations self w fc = Inr b
     \<and> travel_outlook b = ''good''
     \<and> alerts b = fst (snd (travel_current self w))
     \<and> recommendations b = fst (travel_current self w)
     \<and> packing_list b = snd (snd (travel_current self w))
     \<and> best_times b = get_best_travel_times w fc
     \<and> (\<forall>fc' s. analyze_forecast_for_travel fc' = Inr s \<longrightarrow>
           lit (summary s) \<notin> set (recommendations b))
     \<and> (\<forall>fc' b'. get_travel_recommendations self w fc' = Inr b' \<longrightarrow>
           alerts b' = alerts b \<and> packing_list b' = packing_list b
           \<and> best_times b' = best_times b
           \<and> (truthy fc' \<longrightarrow> (\<exists>s. recommendations b' = recommendations b @ [lit s]))
           \<and> (\<not> truthy fc' \<longrightarrow> b' = b))"
proof -
  from assms have falsy: "\<not> truthy fc" by auto
  define b where "b = \<lparr>alerts = fst (snd (travel_current self w)),
          recommendations = fst (travel_current self w),
          packing_list = snd (snd (travel_current self w)),
          travel_outlook = ''good'',
          best_times = get_best_travel_times w fc\<rparr>"
  have a1: "get_travel_recommendations self w fc = Inr b"
    unfolding b_def using falsy by (rule get_travel_falsy)
  have a2: "travel_outlook b = ''good''" by (simp add: b_def)
  have a3: "alerts b = fst (snd (travel_current self w))" by (simp add: b_def)
  have a4: "recommendations b = fst (travel_current self w)" by (simp add: b_def)
  have a5: "packing_list b = snd (snd (travel_current self w))" by (simp add: b_def)
  have a6: "best_times b = get_best_travel_times w fc" by (simp add: b_def)
  have a7: "\<forall>fc' s. analyze_forecast_for_travel fc' = Inr s \<longrightarrow>
           lit (summary s) \<notin> set (recommendations b)"
  proof (intro allI impI)
    fix fc' s
    assume run: "analyze_forecast_for_travel fc' = Inr s"
    show "lit (summary s) \<notin> set (recommendations b)"
    proof (cases "truthy fc'")
      case True
      from analyze_truthy [OF True] run show ?thesis
        using travel_current_no_summary [of "summary s" self w] by (auto simp add: a4)
    next
      case False
      from analyze_falsy [OF False] run show ?thesis
        using travel_current_no_summary [of "summary s" self w] by (auto simp add: a4)
    qed
  qed
  have a8: "\<forall>fc' b'. get_travel_recommendations self w fc' = Inr b' \<longrightarrow>
           alerts b' = alerts b \<and> packing_list b' = packing_list b
           \<and> best_times b' = best_times b
           \<and> (truthy fc' \<longrightarrow> (\<exists>s. recommendations b' = recommendations b @ [lit s]))
           \<and> (\<not> truthy fc' \<longrightarrow> b' = b)"
  proof (intro allI impI)
    fix fc' b'
    assume run: "get_travel_recommendations self w fc' = Inr b'"
    show "alerts b' = alerts b \<and> packing_list b' = packing_list b
           \<and> best_times b' = best_times b
           \<and> (truthy fc' \<longrightarrow> (\<exists>s. recommendations b' = recommendations b @ [lit s]))
           \<and> (\<not> truthy fc' \<longrightarrow> b' = b)"
    proof (cases "truthy fc'")
      case True
      from analyze_truthy [OF True] obtain s where "analyze_forecast_for_travel fc' = Inr s"
        by blast
      from get_travel_truthy [OF True this, of self w] run True show ?thesis
        by (auto simp add: b_def best_times_forecast [of w fc' fc])
    next
      case False
      from get_travel_falsy [OF False, of self w] run False show ?thesis
        by (auto simp add: b_def best_times_forecast [of w fc' fc])
    qed
  qed
  show ?thesis
    by (rule exI [of _ b]) (intro conjI a1 a2 a3 a4 a5 a6 a7 a8)
qed

theorem travel_without_forecast_witness:
  "\<exists>b. get_travel_recommendations RecommendationEngine (snapshot 20 5 50 0 0 ''Clear'') None = Inr b
     \<and> travel_outlook b = ''good''
     \<and> recommendations b = [sightseeing_advisory]
     \<and> packing_list b = mild_packing \<and> alerts b = []"
proof -
  have "(None :: forecast_day list option) = None \<or> (None :: forecast_day list option) = Some []"
    by simp
  from travel_without_forecast [OF this, of RecommendationEngine "snapshot 20 5 50 0 0 ''Clear''"]
  show ?thesis
    by (auto simp add: travel_current_alerts travel_current_recs travel_current_packing
        snapshot_def RecommendationEngine_def TRAVEL_THRESHOLDS_def current_rain_def
        travel_description_def lower_def char_lower_def ascii_upper_def ascii_lower_def)
qed

text \<open>
  Claim C8. The alert blocks of the travel evaluator are independent. Under the default
  thresholds a snapshot with wind speed 60, temperature 20, no rain, and a condition whose
  lower-cased text has \<open>storm\<close> or \<open>thunder\<close> in it (and none of \<open>rain\<close>, \<open>clear\<close>,
  \<open>sun\<close>) gets exactly two alerts, the high-severity wind warning and the critical
  storm danger alert, in this order, with their two advisories, the packing list of mild
  weather, and no rain or visibility alert.
\<close>

theorem travel_wind_and_storm:
  assumes "wind_speed w = 60" and "temperature w = 20" and "current_rain w = 0"
    and "py_in ''storm'' (travel_description w) \<or> py_in ''thunder'' (travel_description w)"
    and "\<not> py_in ''rain'' (travel_description w)"
    and "\<not> py_in ''clear'' (travel_description w)"
    and "\<not> py_in ''sun'' (travel_description w)"
  shows "\<exists>b. get_travel_recommendations RecommendationEngine w fc = Inr b
     \<and> alerts b = [strong_winds_alert 60, storm_alert]
     \<and> alert_type (strong_winds_alert 60) = ''warning''
     \<and> severity (strong_winds_alert 60) = ''high''
     \<and> alert_type storm_alert = ''danger''
     \<and> severity storm_alert = ''critical''
     \<and> take 2 (recommendations b) = [exposed_areas_advisory, postpone_advisory]
     \<and> packing_list b = mild_packing
     \<and> rain_expected_alert \<notin> set (alerts b)
     \<and> poor_visibility_alert \<notin> set (alerts b)"
proof -
  have A: "fst (snd (travel_current RecommendationEngine w)) = [strong_winds_alert 60, storm_alert]"
    using assms by (simp add: travel_current_alerts RecommendationEngine_def TRAVEL_THRESHOLDS_def)
  have R: "fst (travel_current RecommendationEngine w) = [exposed_areas_advisory, postpone_advisory]"
    using assms by (simp add: travel_current_recs RecommendationEngine_def TRAVEL_THRESHOLDS_def)
  have P: "snd (snd (travel_current RecommendationEngine w)) = mild_packing"
    using assms by (simp add: travel_current_packing RecommendationEngine_def TRAVEL_THRESHOLDS_def)
  have texts: "alert_type (strong_winds_alert 60) = ''warning''
     \<and> severity (strong_winds_alert 60) = ''high''
     \<and> alert_type storm_alert = ''danger''
     \<and> severity storm_alert = ''critical''
     \<and> rain_expected_alert \<notin> set [strong_winds_alert 60, storm_alert]
     \<and> poor_visibility_alert \<notin> set [strong_winds_alert 60, storm_alert]"
    by (simp add: travel_text_defs symbol_defs)
  show ?thesis
  proof (cases "truthy fc")
    case True
    from analyze_truthy [OF True] obtain s where "analyze_forecast_for_travel fc = Inr s"
      by blast
    from get_travel_truthy [OF True this, of RecommendationEngine w] texts show ?thesis
      by (simp add: A R P)
  next
    case False
    from get_travel_falsy [OF False, of RecommendationEngine w] texts show ?thesis
      by (simp add: A R P)
  qed
qed

theorem travel_wind_and_storm_witness:
  "wind_speed (snapshot 20 60 50 0 0 ''Thunderstorm'') = 60
   \<and> temperature (snapshot 20 60 50 0 0 ''Thunderstorm'') = 20
   \<and> current_rain (snapshot 20 60 50 0 0 ''Thunderstorm'') = 0
   \<and> travel_description (snapshot 20 60 50 0 0 ''Thunderstorm'') = ''thunderstorm''
   \<and> (\<exists>b. get_travel_recommendations RecommendationEngine
            (snapshot 20 60 50 0 0 ''Thunderstorm'') None = Inr b
          \<and> alerts b = [strong_winds_alert 60, storm_alert]
          \<and> recommendations b = [exposed_areas_advisory, postpone_advisory])"
proof -
  have d: "travel_description (snapshot 20 60 50 0 0 ''Thunderstorm'') = ''thunderstorm''"
    by (simp add: travel_description_def snapshot_def lower_def char_lower_def ascii_upper_def
        ascii_lower_def)
  have h: "wind_speed (snapshot 20 60 50 0 0 ''Thunderstorm'') = 60"
    "temperature (snapshot 20 60 50 0 0 ''Thunderstorm'') = 20"
    "current_rain (snapshot 20 60 50 0 0 ''Thunderstorm'') = 0"
    by (simp_all add: snapshot_def current_rain_def)
  have p: "py_in ''storm'' (travel_description (snapshot 20 60 50 0 0 ''Thunderstorm''))
      \<or> py_in ''thunder'' (travel_description (snapshot 20 60 50 0 0 ''Thunderstorm''))"
    "\<not> py_in ''rain'' (travel_description (snapshot 20 60 50 0 0 ''Thunderstorm''))"
    "\<not> py_in ''clear'' (travel_description (snapshot 20 60 50 0 0 ''Thunderstorm''))"
    "\<not> py_in ''sun'' (travel_description (snapshot 20 60 50 0 0 ''Thunderstorm''))"
    by (simp_all add: d)
  from travel_wind_and_storm [OF h p, of None] obtain b where
    b: "get_travel_recommendations RecommendationEngine
            (snapshot 20 60 50 0 0 ''Thunderstorm'') None = Inr b"
      "alerts b = [strong_winds_alert 60, storm_alert]"
      "take 2 (recommendations b) = [exposed_areas_advisory, postpone_advisory]"
    by blast
  have "recommendations b = fst (travel_current RecommendationEngine
            (snapshot 20 60 50 0 0 ''Thunderstorm''))"
    using b(1) get_travel_falsy [of None RecommendationEngine "snapshot 20 60 50 0 0 ''Thunderstorm''"]
    by auto
  then have "length (recommendations b) \<le> 2"
    using h p by (simp add: travel_current_recs RecommendationEngine_def TRAVEL_THRESHOLDS_def)
  with b(3) have "recommendations b = [exposed_areas_advisory, postpone_advisory]"
    by simp
  with b(1,2) d h show ?thesis by simp
qed

text \<open>
  Claim C9. For every snapshot and forecast the travel evaluator returns a bundle whose
  outlook is one of \<open>good\<close>, \<open>poor\<close>, \<open>excellent\<close>, \<open>fair\<close>, so never \<open>unknown\<close>. The
  helper answers \<open>unknown\<close> only for a forecast that is \<open>None\<close> or empty, and for such a
  forecast the evaluator does not take the helper's outlook: it answers \<open>good\<close>.
\<close>

theorem travel_outlook_values:
  "\<exists>b. get_travel_recommendations self w fc = Inr b
     \<and> travel_outlook b \<in> {''good'', ''poor'', ''excellent'', ''fair''}
     \<and> travel_outlook b \<noteq> ''unknown''
     \<and> (truthy fc \<longrightarrow>
          (\<exists>s. analyze_forecast_for_travel fc = Inr s \<and> outlook s \<noteq> ''unknown''
             \<and> travel_outlook b = outlook s))
     \<and> (\<not> truthy fc \<longrightarrow>
          analyze_forecast_for_travel fc
            = Inr \<lparr>summary = ''No forecast data available'', outlook = ''unknown''\<rparr>
          \<and> travel_outlook b = ''good'')"
proof (cases "truthy fc")
  case True
  from analyze_truthy [OF True] obtain s where s: "analyze_forecast_for_travel fc = Inr s"
    "(summary s, outlook s) \<in>
         {(''Challenging weather ahead. Consider rescheduling outdoor activities.'', ''poor''),
          (''Excellent weather forecast for the next few days!'', ''excellent''),
          (''Fair weather expected. Pack accordingly.'', ''fair'')}"
    by blast
  from s(2) have o: "outlook s \<in> {''poor'', ''excellent'', ''fair''}" by auto
  from get_travel_truthy [OF True s(1), of self w] True s(1) o show ?thesis
    by auto
next
  case False
  from get_travel_falsy [OF False, of self w] analyze_falsy [OF False] False show ?thesis
    by simp
qed

theorem travel_outlook_values_witness:
  "truthy (Some [day_of 1 20 10])
   \<and> (\<exists>b. get_travel_recommendations RecommendationEngine (snapshot 20 5 50 0 0 ''Clear'')
            (Some [day_of 1 20 10]) = Inr b
          \<and> travel_outlook b \<in> {''good'', ''poor'', ''excellent'', ''fair''})
   \<and> \<not> truthy (Some ([] :: forecast_day list))
   \<and> (\<exists>b. get_travel_recommendations RecommendationEngine (snapshot 20 5 50 0 0 ''Clear'')
            (Some []) = Inr b
          \<and> travel_outlook b = ''good'')"
  using travel_outlook_values [of RecommendationEngine "snapshot 20 5 50 0 0 ''Clear''"
      "Some [day_of 1 20 10]"]
    travel_outlook_values [of RecommendationEngine "snapshot 20 5 50 0 0 ''Clear''" "Some []"]
  by auto

section \<open>Properties of the forecast aggregator\<close>

text \<open>
  One turn of the grouping loop either opens a group for a new date, at the end of the
  dictionary, or extends the group of a date that is there.
\<close>

lemma group_step_new:
  assumes "item_date ft x \<notin> fst ` set d"
  shows "group_step ft d x = d @ [(item_date ft x, [to_reading ft x])]"
proof -
  have "map (\<lambda>(k, vs). if k = item_date ft x then (k, vs @ [to_reading ft x]) else (k, vs)) d = d"
    using assms by (intro map_idI) (auto simp add: image_iff)
  with assms show ?thesis
    by (simp add: group_step_def item_date_def Let_def)
qed

lemma group_step_old:
  assumes "item_date ft x \<in> fst ` set d"
  shows "group_step ft d x =
    map (\<lambda>(k, vs). if k = item_date ft x then (k, vs @ [to_reading ft x]) else (k, vs)) d"
  using assms by (simp add: group_step_def item_date_def Let_def)

lemma group_by_date_snoc:
  "group_by_date ft (data @ [x]) = group_step ft (group_by_date ft data) x"
  by (simp add: group_by_date_def)

lemma readings_on_snoc:
  "readings_on ft (data @ [x]) k =
     readings_on ft data k @ (if item_date ft x = k then [to_reading ft x] else [])"
  by (simp add: readings_on_def)

lemma dates_of_snoc: "dates_of ft (data @ [x]) = insert (item_date ft x) (dates_of ft data)"
  by (simp add: dates_of_def)

lemma readings_on_empty: "k \<notin> dates_of ft data \<Longrightarrow> readings_on ft data k = []"
  by (auto simp add: readings_on_def dates_of_def filter_empty_conv)

lemma readings_on_nonempty: "k \<in> dates_of ft data \<Longrightarrow> readings_on ft data k \<noteq> []"
  by (auto simp add: readings_on_def dates_of_def filter_empty_conv)

text \<open>
  The invariant of the grouping loop: the keys of \<open>daily_data\<close> are distinct, they are
  the dates of the items read so far, and the group of a date holds the readings of that
  date, in the order of the input.
\<close>

lemma group_by_date_inv:
  "distinct (map fst (group_by_date ft data))
   \<and> fst ` set (group_by_date ft data) = dates_of ft data
   \<and> (\<forall>k vs. (k, vs) \<in> set (group_by_date ft data) \<longrightarrow> vs = readings_on ft data k)"
proof (induction data rule: rev_induct)
  case Nil
  show ?case by (simp add: group_by_date_def dates_of_def)
next
  case (snoc x data)
  let ?G = "group_by_date ft data"
  let ?d = "item_date ft x"
  let ?r = "to_reading ft x"
  from snoc have dist: "distinct (map fst ?G)"
    and keys: "fst ` set ?G = dates_of ft data"
    and vals: "\<And>k vs. (k, vs) \<in> set ?G \<Longrightarrow> vs = readings_on ft data k"
    by blast+
  have key_in: "k \<in> dates_of ft data" if "(k, vs) \<in> set ?G" for k vs
    using that keys by force
  show ?case
  proof (cases "?d \<in> fst ` set ?G")
    case False
    then have new: "group_by_date ft (data @ [x]) = ?G @ [(?d, [?r])]"
      by (simp add: group_by_date_snoc group_step_new)
    from False keys have fresh: "?d \<notin> dates_of ft data" by simp
    then have empty: "readings_on ft data ?d = []"
      by (rule readings_on_empty)
    have c1: "distinct (map fst (group_by_date ft (data @ [x])))"
      using dist False by (simp add: new)
    have c2: "fst ` set (group_by_date ft (data @ [x])) = dates_of ft (data @ [x])"
      using keys by (simp add: new dates_of_snoc)
    have c3: "vs = readings_on ft (data @ [x]) k"
      if "(k, vs) \<in> set (group_by_date ft (data @ [x]))" for k vs
    proof (cases "(k, vs) \<in> set ?G")
      case True
      with key_in fresh have "k \<noteq> ?d" by blast
      with vals [OF True] show ?thesis by (simp add: readings_on_snoc)
    next
      case False
      with that have "k = ?d" "vs = [?r]" by (simp_all add: new)
      with empty show ?thesis by (simp add: readings_on_snoc)
    qed
    from c1 c2 c3 show ?thesis by blast
  next
    case True
    then have old: "group_by_date ft (data @ [x]) =
      map (\<lambda>(k, vs). if k = ?d then (k, vs @ [?r]) else (k, vs)) ?G"
      by (simp add: group_by_date_snoc group_step_old)
    have fsts: "map fst (group_by_date ft (data @ [x])) = map fst ?G"
      unfolding old by (rule nth_equalityI) (simp_all split: prod.splits)
    have c1: "distinct (map fst (group_by_date ft (data @ [x])))"
      using dist by (simp add: fsts)
    have "set (map fst (group_by_date ft (data @ [x]))) = set (map fst ?G)"
      by (simp only: fsts)
    then have "fst ` set (group_by_date ft (data @ [x])) = fst ` set ?G"
      by simp
    with True keys have c2: "fst ` set (group_by_date ft (data @ [x])) = dates_of ft (data @ [x])"
      by (auto simp add: dates_of_snoc)
    have c3: "vs = readings_on ft (data @ [x]) k"
      if "(k, vs) \<in> set (group_by_date ft (data @ [x]))" for k vs
    proof -
      from that obtain k' vs' where in_G: "(k', vs') \<in> set ?G"
        and eq: "(k, vs) = (if k' = ?d then (k', vs' @ [?r]) else (k', vs'))"
        unfolding old by auto
      from vals [OF in_G] eq show ?thesis
        by (auto simp add: readings_on_snoc split: if_splits)
    qed
    from c1 c2 c3 show ?thesis by blast
  qed
qed

text \<open>Sorting the groups by their date gives the dates in ascending order, each once.\<close>

lemma map_insort_key: "map f (insort_key f x xs) = insort (f x) (map f xs)"
  by (induction xs) simp_all

lemma map_sort_key: "map f (sort_key f xs) = sort (map f xs)"
  by (induction xs) (simp_all add: map_insort_key)

lemma sorted_groups_dates:
  "map fst (sort_key fst (group_by_date ft data)) = sort (remdups (map (item_date ft) data))"
proof -
  have "set (map fst (group_by_date ft data)) = set (map (item_date ft) data)"
    using group_by_date_inv [of ft data] by (simp add: dates_of_def)
  moreover have "distinct (map fst (group_by_date ft data))"
    using group_by_date_inv [of ft data] by simp
  ultimately have "sort (map fst (group_by_date ft data)) = sort (remdups (map (item_date ft) data))"
    by (intro sorted_distinct_set_unique) simp_all
  then show ?thesis by (simp add: map_sort_key)
qed

lemma sorted_groups_vals:
  assumes "(k, vs) \<in> set (sort_key fst (group_by_date ft data))"
  shows "vs = readings_on ft data k \<and> vs \<noteq> []"
proof -
  from assms have in_G: "(k, vs) \<in> set (group_by_date ft data)" by simp
  then have "k \<in> fst ` set (group_by_date ft data)" by force
  then have "k \<in> dates_of ft data"
    using group_by_date_inv [of ft data] by simp
  then have "readings_on ft data k \<noteq> []" by (rule readings_on_nonempty)
  moreover from in_G have "vs = readings_on ft data k"
    using group_by_date_inv [of ft data] by blast
  ultimately show ?thesis by simp
qed

lemma py_slice_to_subset: "set (py_slice_to k xs) \<subseteq> set xs"
  by (auto simp add: py_slice_to_def dest: in_set_takeD)

lemma map_py_slice_to: "map f (py_slice_to k xs) = py_slice_to k (map f xs)"
  by (simp add: py_slice_to_def take_map)

text \<open>
  A group that is not empty is aggregated without an exception, and the result is the
  summary of the group.
\<close>

lemma py_getitem_mid:
  assumes "items \<noteq> []"
  shows "py_getitem items (int (length items) div 2) = Inr (items ! (length items div 2))"
proof -
  have eq: "int (length items) div 2 = int (length items div 2)"
    by (simp add: zdiv_int)
  from assms have "length items div 2 < length items"
    by (cases items) simp_all
  then show ?thesis
    unfolding eq by (simp add: py_getitem_def)
qed

lemma aggregate_day_ok:
  assumes "items \<noteq> []"
  shows "\<exists>f. aggregate_day (day, items) = Inr f \<and> summarises f day items"
proof -
  from assms have t: "map rd_temperature items \<noteq> []" and w: "map rd_wind_speed items \<noteq> []"
    and n: "real (length items) \<noteq> 0"
    by simp_all
  show ?thesis
    using n by (simp add: aggregate_day_def summarises_def py_min_Min [OF t] py_max_Max [OF t]
      py_max_Max [OF w] py_truediv_def py_getitem_mid [OF assms])
qed

lemma aggregate_days_ok:
  "\<forall>(k, vs) \<in> set L. vs \<noteq> [] \<Longrightarrow>
     \<exists>fs. aggregate_days L = Inr fs \<and> list_all2 (\<lambda>f (k, vs). summarises f k vs) fs L"
proof (induction L)
  case Nil
  show ?case by simp
next
  case (Cons x L)
  obtain k vs where x: "x = (k, vs)" by (cases x)
  from Cons.prems x have "vs \<noteq> []" by simp
  from aggregate_day_ok [OF this, of k] obtain f where
    f: "aggregate_day (k, vs) = Inr f" "summarises f k vs" by blast
  from Cons obtain fs where
    fs: "aggregate_days L = Inr fs" "list_all2 (\<lambda>f (k, vs). summarises f k vs) fs L" by auto
  from f fs x show ?case by simp
qed

text \<open>
  What \<open>_parse_forecast\<close> returns, for every response and every day count: it raises
  nothing, the dates of the result are the slice \<open>[:days]\<close> of the dates of the response
  in ascending order, and every day of the result summarises the readings of its date.
\<close>

lemma parse_forecast_spec:
  "\<exists>fs. parse_forecast ft data days = Inr fs
     \<and> map date fs = py_slice_to days (sort (remdups (map (item_date ft) data)))
     \<and> (\<forall>f \<in> set fs. summarises f (date f) (readings_on ft data (date f))
                      \<and> readings_on ft data (date f) \<noteq> [])"
proof -
  let ?L = "py_slice_to days (sort_key fst (group_by_date ft data))"
  have vals: "vs = readings_on ft data k \<and> vs \<noteq> []" if "(k, vs) \<in> set ?L" for k vs
    using that py_slice_to_subset [of days "sort_key fst (group_by_date ft data)"]
      sorted_groups_vals [of k vs ft data] by blast
  then have "\<forall>(k, vs) \<in> set ?L. vs \<noteq> []" by blast
  from aggregate_days_ok [OF this] obtain fs where
    run: "aggregate_days ?L = Inr fs"
    and rel: "list_all2 (\<lambda>f (k, vs). summarises f k vs) fs ?L" by blast
  have len: "length fs = length ?L"
    using rel by (rule list_all2_lengthD)
  have nth: "summarises (fs ! i) (fst (?L ! i)) (snd (?L ! i))" if "i < length fs" for i
    using list_all2_nthD [OF rel that] by (simp add: case_prod_beta)
  have dates: "map date fs = map fst ?L"
  proof (rule nth_equalityI)
    show "length (map date fs) = length (map fst ?L)" by (simp add: len)
  next
    fix i assume "i < length (map date fs)"
    then have i: "i < length fs" by simp
    with nth [OF i] len show "map date fs ! i = map fst ?L ! i"
      by (simp add: summarises_def)
  qed
  have each: "summarises f (date f) (readings_on ft data (date f))
                \<and> readings_on ft data (date f) \<noteq> []" if "f \<in> set fs" for f
  proof -
    from that obtain i where i: "i < length fs" and f: "f = fs ! i"
      by (auto simp add: in_set_conv_nth)
    from i len have "?L ! i \<in> set ?L" by simp
    then have "(fst (?L ! i), snd (?L ! i)) \<in> set ?L" by simp
    from vals [OF this] have v1: "snd (?L ! i) = readings_on ft data (fst (?L ! i))"
      and v2: "snd (?L ! i) \<noteq> []" by blast+
    from nth [OF i] have d: "date f = fst (?L ! i)" by (simp add: f summarises_def)
    have s1: "summarises (fs ! i) (fst (?L ! i)) (snd (?L ! i))"
      by (rule nth [OF i])
    from v2 have "readings_on ft data (date f) \<noteq> []"
      unfolding d v1 [symmetric] .
    moreover have "summarises f (date f) (readings_on ft data (date f))"
      using s1 by (simp only: d v1 [symmetric] f [symmetric])
    ultimately show ?thesis by simp
  qed
  have "map date fs = py_slice_to days (sort (remdups (map (item_date ft) data)))"
    by (simp add: dates map_py_slice_to sorted_groups_dates)
  with run each show ?thesis
    by (auto simp add: parse_forecast_def)
qed

lemma sort_remdups_dates:
  "sort (remdups (map (item_date ft) data)) = sorted_list_of_set (dates_of ft data)"
  unfolding dates_of_def set_map [symmetric]
  by (rule sorted_list_of_set_sort_remdups [symmetric])

lemma length_sort_remdups_dates:
  "length (sort (remdups (map (item_date ft) data))) = card (dates_of ft data)"
  by (simp add: dates_of_def length_remdups_card_conv)

lemma sorted_py_slice_to: "sorted xs \<Longrightarrow> sorted (py_slice_to k xs)"
  by (simp add: py_slice_to_def sorted_wrt_take)

lemma distinct_py_slice_to: "distinct xs \<Longrightarrow> distinct (py_slice_to k xs)"
  by (simp add: py_slice_to_def)

lemma length_py_slice_to_le: "length (py_slice_to k xs) \<le> length xs"
  by (simp add: py_slice_to_def) arith

text \<open>
  A stored reading carries the fields of its item: the numbers and texts as they are, the
  wind speed times 3.6, and the \<open>3h\<close> amounts of rain and snow with 0 for a missing
  dictionary or entry. So a summary of the readings is a summary of the items.
\<close>

lemma to_reading_rain: "rd_rain (to_reading ft item) = rain_3h_of item"
  by (simp add: to_reading_def rain_3h_of_def split: option.splits)

lemma to_reading_snow: "rd_snow (to_reading ft item) = snow_3h_of item"
  by (simp add: to_reading_def snow_3h_of_def split: option.splits)

lemma to_reading_fields:
  "rd_datetime (to_reading ft item) = ft (it_dt item)"
  "rd_temperature (to_reading ft item) = it_temp item"
  "rd_feels_like (to_reading ft item) = it_feels_like item"
  "rd_humidity (to_reading ft item) = it_humidity item"
  "rd_pressure (to_reading ft item) = it_pressure item"
  "rd_wind_speed (to_reading ft item) = it_wind_speed item * 3.6"
  "rd_description (to_reading ft item) = it_description item"
  "rd_main (to_reading ft item) = it_main item"
  "rd_icon (to_reading ft item) = it_icon item"
  "rd_clouds (to_reading ft item) = it_clouds item"
  by (simp_all add: to_reading_def)

lemma readings_on_items: "readings_on ft data day = map (to_reading ft) (items_on ft data day)"
  by (simp add: readings_on_def items_on_def)

lemma summarises_to_items:
  assumes "items \<noteq> []" and "summarises f day (map (to_reading ft) items)"
  shows "summarises_items ft f day items"
proof -
  from assms(1) have mid: "length items div 2 < length items"
    by (cases items) simp_all
  from assms(2) mid show ?thesis
    by (simp add: summarises_def summarises_items_def o_def to_reading_fields to_reading_rain
        to_reading_snow)
qed

lemma two_days_dates:
  "sort (remdups (map (item_date utc_fromtimestamp) two_days)) = [719163, 719164]"
  by (simp add: two_days_def item_date_def item_at_def utc_fromtimestamp_def)

lemma mixed_days_dates:
  "sort (remdups (map (item_date utc_fromtimestamp) mixed_days)) = [719163, 719164]"
  by (simp add: mixed_days_def item_date_def item_at_def wet_item_def utc_fromtimestamp_def)

text \<open>
  Claim C6, as the code has it. The aggregator groups the items of the response by
  calendar date and raises nothing. The dates of the result are the dates of the response
  in ascending order, cut by the slice \<open>[:days]\<close>. Every day of the result is aggregated
  from the items of its date, in the order of the response: the minimum, the maximum and
  the mean of their temperatures, the mean of their humidities, the maximum of their wind
  speeds (in km/h), the sums of their rain and snow, the description and icon of the item at
  index \<open>len // 2\<close>, and one stored reading for each item. A date with a single item is
  summarised by that item. When the response has two dates (such as eight three-hourly
  readings, four on each of two days) and at least two days are requested, the result has
  exactly two entries, one for each date.
\<close>

theorem parse_forecast_aggregates:
  "\<exists>fs. parse_forecast ft data days = Inr fs
     \<and> map date fs = py_slice_to days (sorted_list_of_set (dates_of ft data))
     \<and> (\<forall>f \<in> set fs.
           items_on ft data (date f) \<noteq> []
           \<and> summarises_items ft f (date f) (items_on ft data (date f))
           \<and> (\<forall>x. items_on ft data (date f) = [x] \<longrightarrow>
                 temp_min f = it_temp x \<and> temp_max f = it_temp x \<and> temp_avg f = it_temp x
                 \<and> humidity_avg f = it_humidity x
                 \<and> wind_speed_max f = it_wind_speed x * 3.6
                 \<and> total_rain f = rain_3h_of x \<and> total_snow f = snow_3h_of x
                 \<and> description f = it_description x))
     \<and> (2 \<le> days \<and> card (dates_of ft data) = 2 \<longrightarrow>
           length fs = 2 \<and> set (map date fs) = dates_of ft data)"
proof -
  from parse_forecast_spec [of ft data days] obtain fs where
    run: "parse_forecast ft data days = Inr fs"
    and dates: "map date fs = py_slice_to days (sort (remdups (map (item_date ft) data)))"
    and each: "\<And>f. f \<in> set fs \<Longrightarrow> summarises f (date f) (readings_on ft data (date f))
                      \<and> readings_on ft data (date f) \<noteq> []"
    by blast
  let ?S = "sort (remdups (map (item_date ft) data))"
  have dates': "map date fs = py_slice_to days (sorted_list_of_set (dates_of ft data))"
    using dates by (simp only: sort_remdups_dates)
  have nonempty: "items_on ft data (date f) \<noteq> []" if "f \<in> set fs" for f
    using each [OF that] by (simp add: readings_on_items)
  have items: "summarises_items ft f (date f) (items_on ft data (date f))"
    if "f \<in> set fs" for f
    using each [OF that] nonempty [OF that]
    by (intro summarises_to_items) (simp_all add: readings_on_items)
  have single: "temp_min f = it_temp x \<and> temp_max f = it_temp x \<and> temp_avg f = it_temp x
                 \<and> humidity_avg f = it_humidity x
                 \<and> wind_speed_max f = it_wind_speed x * 3.6
                 \<and> total_rain f = rain_3h_of x \<and> total_snow f = snow_3h_of x
                 \<and> description f = it_description x"
    if "f \<in> set fs" "items_on ft data (date f) = [x]" for f x
    using items [OF that(1)] that(2) by (simp add: summarises_items_def)
  have two: "length fs = 2 \<and> set (map date fs) = dates_of ft data"
    if "2 \<le> days" "card (dates_of ft data) = 2"
  proof -
    from that(2) have len: "length ?S = 2"
      by (simp only: length_sort_remdups_dates)
    with that(1) have "py_slice_to days ?S = ?S"
      by (simp add: py_slice_to_def)
    with dates have eq: "map date fs = ?S" by simp
    with len have "length (map date fs) = 2"
      by (simp only:)
    moreover from eq have "set (map date fs) = dates_of ft data"
      by (simp add: dates_of_def)
    ultimately show ?thesis by simp
  qed
  from run dates' nonempty items single two show ?thesis
    by (intro exI [of _ fs]) blast
qed

theorem parse_forecast_aggregates_witness:
  "(2 :: int) \<le> 5
   \<and> card (dates_of utc_fromtimestamp two_days) = 2
   \<and> length two_days = 8
   \<and> (\<exists>fs. parse_forecast utc_fromtimestamp two_days 5 = Inr fs
          \<and> map date fs = [719163, 719164]
          \<and> map temp_min fs = [10, 8]
          \<and> map temp_max fs = [14, 15]
          \<and> map temp_avg fs = [47 / 4, 45 / 4]
          \<and> map description fs = [''c'', ''g''])
   \<and> (\<exists>fs. parse_forecast utc_fromtimestamp mixed_days 5 = Inr fs
          \<and> map date fs = [719163, 719164]
          \<and> map temp_min fs = [4, 9]
          \<and> map temp_max fs = [6, 9]
          \<and> map temp_avg fs = [5, 9]
          \<and> map humidity_avg fs = [170 / 3, 50]
          \<and> map wind_speed_max fs = [36, 18]
          \<and> map total_rain fs = [3, 0]
          \<and> map description fs = [''wet'', ''late''])"
proof -
  have s2: "sorted_list_of_set (dates_of utc_fromtimestamp two_days) = [719163, 719164]"
    using two_days_dates by (simp only: sort_remdups_dates)
  have c2: "card (dates_of utc_fromtimestamp two_days) = 2"
    using length_sort_remdups_dates [of utc_fromtimestamp two_days] two_days_dates by simp
  have i2: "items_on utc_fromtimestamp two_days 719163 = take 4 two_days"
    "items_on utc_fromtimestamp two_days 719164 = drop 4 two_days"
    by (simp_all add: items_on_def two_days_def item_date_def item_at_def utc_fromtimestamp_def)
  from parse_forecast_aggregates [of utc_fromtimestamp two_days 5] obtain fs where
    run: "parse_forecast utc_fromtimestamp two_days 5 = Inr fs"
    and dates: "map date fs = [719163, 719164]"
    and each: "\<And>f. f \<in> set fs \<Longrightarrow>
        summarises_items utc_fromtimestamp f (date f) (items_on utc_fromtimestamp two_days (date f))"
    by (auto simp add: s2 py_slice_to_def)
  from dates obtain f1 f2 where fs: "fs = [f1, f2]" and d: "date f1 = 719163" "date f2 = 719164"
    by (auto simp add: map_eq_Cons_conv)
  have e1: "summarises_items utc_fromtimestamp f1 719163 (take 4 two_days)"
    using each [of f1] fs d by (simp add: i2)
  have e2: "summarises_items utc_fromtimestamp f2 719164 (drop 4 two_days)"
    using each [of f2] fs d by (simp add: i2)
  from e1 e2 fs
  have first: "map temp_min fs = [10, 8] \<and> map temp_max fs = [14, 15]
      \<and> map temp_avg fs = [47 / 4, 45 / 4] \<and> map description fs = [''c'', ''g'']"
    by (simp add: summarises_items_def two_days_def item_at_def)
  have sm: "sorted_list_of_set (dates_of utc_fromtimestamp mixed_days) = [719163, 719164]"
    using mixed_days_dates by (simp only: sort_remdups_dates)
  have im: "items_on utc_fromtimestamp mixed_days 719163 = take 3 (tl mixed_days)"
    "items_on utc_fromtimestamp mixed_days 719164 = [hd mixed_days]"
    by (simp_all add: items_on_def mixed_days_def item_date_def item_at_def wet_item_def
        utc_fromtimestamp_def)
  from parse_forecast_aggregates [of utc_fromtimestamp mixed_days 5] obtain gs where
    grun: "parse_forecast utc_fromtimestamp mixed_days 5 = Inr gs"
    and gdates: "map date gs = [719163, 719164]"
    and geach: "\<And>f. f \<in> set gs \<Longrightarrow>
        summarises_items utc_fromtimestamp f (date f) (items_on utc_fromtimestamp mixed_days (date f))"
    by (auto simp add: sm py_slice_to_def)
  from gdates obtain g1 g2 where gs: "gs = [g1, g2]" and gd: "date g1 = 719163" "date g2 = 719164"
    by (auto simp add: map_eq_Cons_conv)
  have g1: "summarises_items utc_fromtimestamp g1 719163 (take 3 (tl mixed_days))"
    using geach [of g1] gs gd by (simp add: im)
  have g2: "summarises_items utc_fromtimestamp g2 719164 [hd mixed_days]"
    using geach [of g2] gs gd by (simp add: im)
  from g1 g2 gs
  have second: "map temp_min gs = [4, 9] \<and> map temp_max gs = [6, 9]
      \<and> map temp_avg gs = [5, 9] \<and> map humidity_avg gs = [170 / 3, 50]
      \<and> map wind_speed_max gs = [36, 18] \<and> map total_rain gs = [3, 0]
      \<and> map description gs = [''wet'', ''late'']"
    by (simp add: summarises_items_def mixed_days_def item_at_def wet_item_def
        rain_3h_of_def)
  have l: "length two_days = 8" by (simp add: two_days_def)
  from run dates first grun gdates second c2 l show ?thesis by auto
qed

text \<open>
  Claim C6 as stated fails when fewer than two days are requested: of the eight readings,
  four on each of two days, a request for one day returns the first day only.
\<close>

theorem parse_forecast_one_day_counterexample:
  "map (item_date utc_fromtimestamp) two_days
     = [719163, 719163, 719163, 719163, 719164, 719164, 719164, 719164]
   \<and> map date (projr (parse_forecast utc_fromtimestamp two_days 1)) = [719163]
   \<and> length (projr (parse_forecast utc_fromtimestamp two_days 1)) \<noteq> 2"
proof -
  from parse_forecast_spec [of utc_fromtimestamp two_days 1] obtain fs where
    run: "parse_forecast utc_fromtimestamp two_days 1 = Inr fs"
    and dates: "map date fs
      = py_slice_to 1 (sort (remdups (map (item_date utc_fromtimestamp) two_days)))"
    by blast
  from dates have d: "map date fs = [719163]"
    by (simp add: two_days_dates py_slice_to_def)
  then have "length (map date fs) = 1" by (simp only:) simp
  then have "length fs \<noteq> 2" by simp
  moreover have "map (item_date utc_fromtimestamp) two_days
     = [719163, 719163, 719163, 719163, 719164, 719164, 719164, 719164]"
    by (simp add: two_days_def item_date_def item_at_def utc_fromtimestamp_def)
  ultimately show ?thesis using run d by simp
qed

text \<open>
  Claim C7, as the code has it. The result is in ascending order of date, whatever the
  order of the input, with each date once; it has at most as many entries as the input has
  dates; and for a requested day count that is not negative it has at most that many
  entries, the earliest dates of the input. So three days requested of an input with five
  dates gives exactly three entries, the earliest three dates.
\<close>

theorem parse_forecast_sorted_truncated:
  "\<exists>fs. parse_forecast ft data days = Inr fs
     \<and> sorted (map date fs) \<and> distinct (map date fs)
     \<and> set (map date fs) \<subseteq> dates_of ft data
     \<and> length fs \<le> card (dates_of ft data)
     \<and> (0 \<le> days \<longrightarrow>
           int (length fs) \<le> days
           \<and> map date fs = take (nat days) (sorted_list_of_set (dates_of ft data)))
     \<and> (days = 3 \<and> card (dates_of ft data) = 5 \<longrightarrow>
           length fs = 3
           \<and> map date fs = take 3 (sorted_list_of_set (dates_of ft data)))"
proof -
  from parse_forecast_spec [of ft data days] obtain fs where
    run: "parse_forecast ft data days = Inr fs"
    and dates: "map date fs = py_slice_to days (sort (remdups (map (item_date ft) data)))"
    by blast
  let ?S = "sort (remdups (map (item_date ft) data))"
  have c1: "sorted (map date fs)"
    unfolding dates by (rule sorted_py_slice_to) simp
  have c2: "distinct (map date fs)"
    unfolding dates by (rule distinct_py_slice_to) simp
  have c3: "set (map date fs) \<subseteq> dates_of ft data"
    unfolding dates using py_slice_to_subset [of days ?S] by (simp add: dates_of_def)
  have "length (map date fs) \<le> length ?S"
    unfolding dates by (rule length_py_slice_to_le)
  then have c4: "length fs \<le> card (dates_of ft data)"
    by (simp only: length_sort_remdups_dates length_map)
  have c5: "int (length fs) \<le> days
           \<and> map date fs = take (nat days) (sorted_list_of_set (dates_of ft data))"
    if "0 \<le> days"
  proof -
    from that dates have eq: "map date fs = take (nat days) ?S"
      by (simp add: py_slice_to_def)
    then have "length (map date fs) \<le> nat days" by simp
    with that have le: "int (length fs) \<le> days" by simp
    from eq have "map date fs = take (nat days) (sorted_list_of_set (dates_of ft data))"
      by (simp only: sort_remdups_dates)
    with le show ?thesis by simp
  qed
  have c6: "length fs = 3 \<and> map date fs = take 3 (sorted_list_of_set (dates_of ft data))"
    if "days = 3" "card (dates_of ft data) = 5"
  proof -
    from that(1) c5 have eq: "map date fs = take 3 (sorted_list_of_set (dates_of ft data))"
      by simp
    have "length (sorted_list_of_set (dates_of ft data)) = card (dates_of ft data)"
      using length_sort_remdups_dates [of ft data] by (simp only: sort_remdups_dates)
    with that(2) have l5: "length (sorted_list_of_set (dates_of ft data)) = 5"
      by simp
    have "length (map date fs) = length (take 3 (sorted_list_of_set (dates_of ft data)))"
      by (simp only: eq)
    also have "\<dots> = 3" using l5 by simp
    finally have "length fs = 3" by simp
    with eq show ?thesis by simp
  qed
  from run c1 c2 c3 c4 c5 c6 show ?thesis
    by (intro exI [of _ fs]) blast
qed

lemma five_days_dates:
  "sort (remdups (map (item_date utc_fromtimestamp) five_days))
     = [719163, 719164, 719165, 719166, 719167]"
  by (simp add: five_days_def item_date_def item_at_def utc_fromtimestamp_def)

theorem parse_forecast_sorted_truncated_witness:
  "(0 :: int) \<le> 3 \<and> card (dates_of utc_fromtimestamp five_days) = 5
   \<and> map (item_date utc_fromtimestamp) five_days = [719167, 719163, 719166, 719164, 719165]
   \<and> (\<exists>fs. parse_forecast utc_fromtimestamp five_days 3 = Inr fs
          \<and> map date fs = [719163, 719164, 719165])"
proof -
  have s: "sorted_list_of_set (dates_of utc_fromtimestamp five_days)
             = [719163, 719164, 719165, 719166, 719167]"
    using five_days_dates by (simp only: sort_remdups_dates)
  have c: "card (dates_of utc_fromtimestamp five_days) = 5"
    using length_sort_remdups_dates [of utc_fromtimestamp five_days] five_days_dates by simp
  have i: "map (item_date utc_fromtimestamp) five_days = [719167, 719163, 719166, 719164, 719165]"
    by (simp add: five_days_def item_date_def item_at_def utc_fromtimestamp_def)
  from parse_forecast_sorted_truncated [of utc_fromtimestamp five_days 3] s c i show ?thesis
    by auto
qed

text \<open>
  Claim C7 as stated fails for a negative day count, where the slice \<open>[:days]\<close> counts
  from the end: with \<open>days = -1\<close> an input with five dates gives four entries, which is
  more than the requested count.
\<close>

theorem parse_forecast_negative_days_counterexample:
  "map date (projr (parse_forecast utc_fromtimestamp five_days (- 1)))
     = [719163, 719164, 719165, 719166]
   \<and> \<not> int (length (projr (parse_forecast utc_fromtimestamp five_days (- 1)))) \<le> - 1"
proof -
  from parse_forecast_spec [of utc_fromtimestamp five_days "- 1"] obtain fs where
    run: "parse_forecast utc_fromtimestamp five_days (- 1) = Inr fs"
    and dates: "map date fs
      = py_slice_to (- 1) (sort (remdups (map (item_date utc_fromtimestamp) five_days)))"
    by blast
  from dates have "map date fs = [719163, 719164, 719165, 719166]"
    by (simp add: five_days_dates py_slice_to_def)
  with run show ?thesis by simp
qed

end
